theory Spec2Isabelle
  imports Complex_Main "HOL-Library.Sublist"
begin

section \<open>Data model of the chat service\<close>

text \<open>
  The development embeds \<^verbatim>\<open>ChatService.js\<close> (the request orchestrator and the
  conversation lifecycle) and \<^verbatim>\<open>GeminiAPIService.js\<close> (the backend gateway).
  JavaScript strings are modelled as \<^typ>\<open>string\<close>; a value that may be
  \<^verbatim>\<open>undefined\<close> or \<^verbatim>\<open>null\<close> is an \<^typ>\<open>'a option\<close>. Text outside ASCII
  (the Korean messages of the source) is written as its UTF-8 bytes.
\<close>

datatype role = User | Model | System

record code_summary =
  cs_filename :: string
  cs_size :: int
  cs_language :: string
  cs_lineCount :: nat
  cs_fullCode :: string

text \<open>
  The parts of a message are objects distinguished by their \<^verbatim>\<open>type\<close> field:
  \<^verbatim>\<open>{type:'text', text}\<close>, \<^verbatim>\<open>{type:'image', mimeType, data}\<close>,
  \<^verbatim>\<open>{type:'pdf-attachment', name, data}\<close> and \<^verbatim>\<open>{type:'code-summary', summary}\<close>.
\<close>

datatype part =
    TextPart string
  | ImagePart string string
  | PdfAttachment string string
  | CodeSummary code_summary

fun part_type :: "part \<Rightarrow> string" where
  "part_type (TextPart t) = ''text''"
| "part_type (ImagePart mimeType d) = ''image''"
| "part_type (PdfAttachment n d) = ''pdf-attachment''"
| "part_type (CodeSummary summary) = ''code-summary''"

record metadata =
  thinkingTime :: int
  modelUsed :: string
  completionTimestamp :: int
  receivedAt :: int

record message =
  msg_id :: string
  msg_role :: role
  parts :: "part list"
  msg_metadata :: "metadata option"

section \<open>Array helpers of JavaScript\<close>

text \<open>\<^verbatim>\<open>Array.prototype.findIndex\<close>: the first index whose element satisfies the
  predicate, \<open>-1\<close> when there is none.\<close>

fun findIndex :: "('a \<Rightarrow> bool) \<Rightarrow> 'a list \<Rightarrow> int" where
  "findIndex P [] = -1"
| "findIndex P (x # xs) =
     (if P x then 0 else (let i = findIndex P xs in if i < 0 then -1 else i + 1))"

text \<open>\<^verbatim>\<open>Array.prototype.findLastIndex\<close>: the last such index, \<open>-1\<close> when there is none.\<close>

fun findLastIndex :: "('a \<Rightarrow> bool) \<Rightarrow> 'a list \<Rightarrow> int" where
  "findLastIndex P [] = -1"
| "findLastIndex P (x # xs) =
     (let i = findLastIndex P xs in if 0 \<le> i then i + 1 else if P x then 0 else -1)"

section \<open>Shaping the outgoing history\<close>

text \<open>
  \<^verbatim>\<open>
  function filterHistoryForApi(history) {
      const lastUserMessageIndex = history.findLastIndex(m => m.role === 'user');
      return history.map((message, index) => {
          if (index === lastUserMessageIndex || message.role !== 'user') return message;
          const filteredParts = message.parts.filter(part => part.type === 'text' || part.type === 'image');
          return { ...message, parts: filteredParts };
      });
  }
  \<close>
\<close>

definition isTextOrImage :: "part \<Rightarrow> bool" where
  "isTextOrImage p = (part_type p = ''text'' \<or> part_type p = ''image'')"

definition filterMessage :: "int \<Rightarrow> nat \<Rightarrow> message \<Rightarrow> message" where
  "filterMessage lastUserMessageIndex index m =
     (if int index = lastUserMessageIndex \<or> msg_role m \<noteq> User then m
      else m\<lparr>parts := filter isTextOrImage (parts m)\<rparr>)"

definition filterHistoryForApi :: "message list \<Rightarrow> message list" where
  "filterHistoryForApi history =
     (let lastUserMessageIndex = findLastIndex (\<lambda>m. msg_role m = User) history
      in map (\<lambda>(index, m). filterMessage lastUserMessageIndex index m)
             (zip [0 ..< length history] history))"

section \<open>Strings\<close>

text \<open>\<^verbatim>\<open>String.prototype.toLowerCase\<close> and \<^verbatim>\<open>toUpperCase\<close>, on the ASCII letters.\<close>

definition upperLetters :: string where
  "upperLetters = ''ABCDEFGHIJKLMNOPQRSTUVWXYZ''"

definition lowerLetters :: string where
  "lowerLetters = ''abcdefghijklmnopqrstuvwxyz''"

definition toLowerCase_char :: "char \<Rightarrow> char" where
  "toLowerCase_char c =
     (case map_of (zip upperLetters lowerLetters) c of None \<Rightarrow> c | Some l \<Rightarrow> l)"

definition toLowerCase :: "string \<Rightarrow> string" where
  "toLowerCase s = map toLowerCase_char s"

definition toUpperCase_char :: "char \<Rightarrow> char" where
  "toUpperCase_char c =
     (case map_of (zip lowerLetters upperLetters) c of None \<Rightarrow> c | Some u \<Rightarrow> u)"

definition toUpperCase :: "string \<Rightarrow> string" where
  "toUpperCase s = map toUpperCase_char s"

text \<open>\<^verbatim>\<open>haystack.includes(needle)\<close>: the needle occurs as a contiguous substring.\<close>

fun str_includes :: "string \<Rightarrow> string \<Rightarrow> bool" where
  "str_includes [] needle = (needle = [])"
| "str_includes (c # cs) needle = (prefix needle (c # cs) \<or> str_includes cs needle)"

text \<open>\<^verbatim>\<open>s.slice(-n)\<close>: the last \<open>n\<close> characters, the whole string when it is shorter.\<close>

definition slice_last :: "nat \<Rightarrow> string \<Rightarrow> string" where
  "slice_last n s = drop (length s - n) s"

text \<open>\<^verbatim>\<open>s.split(d)\<close> for a one-character separator: never empty.\<close>

fun split_on :: "char \<Rightarrow> string \<Rightarrow> string list" where
  "split_on d [] = [[]]"
| "split_on d (c # cs) =
     (if c = d then [] # split_on d cs
      else (case split_on d cs of [] \<Rightarrow> [[c]] | w # ws \<Rightarrow> (c # w) # ws))"

definition isWhiteSpace :: "char \<Rightarrow> bool" where
  "isWhiteSpace c = (c \<in> set [CHR 0x09, CHR 0x0A, CHR 0x0B, CHR 0x0C, CHR 0x0D, CHR '' ''])"

definition trim :: "string \<Rightarrow> string" where
  "trim s = rev (dropWhile isWhiteSpace (rev (dropWhile isWhiteSpace s)))"

section \<open>Errors\<close>

text \<open>
  A thrown JavaScript error, with the three properties the service reads:
  \<^verbatim>\<open>error.name\<close>, \<^verbatim>\<open>error.message\<close> and \<^verbatim>\<open>error.status\<close> (set by the gateway on a
  response that is not ok, absent otherwise).
\<close>

record js_error =
  err_name :: string
  err_message :: string
  err_status :: "int option"

text \<open>\<^verbatim>\<open>new Error(message)\<close>.\<close>

definition Error :: "string \<Rightarrow> js_error" where
  "Error msg = \<lparr>err_name = ''Error'', err_message = msg, err_status = None\<rparr>"

section \<open>Credentials\<close>

text \<open>A credential as the settings hold it: a string, or absent.\<close>

type_synonym api_key = "string option"

text \<open>JavaScript truthiness of a credential (\<^verbatim>\<open>filter(Boolean)\<close>, \<^verbatim>\<open>key ? .. : ..\<close>).\<close>

definition truthy :: "api_key \<Rightarrow> bool" where
  "truthy key = (case key of None \<Rightarrow> False | Some k \<Rightarrow> k \<noteq> [])"

text \<open>
  \<^verbatim>\<open>const getApiKeyIdentifier = (key) => key ? `key_${key.slice(-4)}` : 'no_key';\<close>
\<close>

definition getApiKeyIdentifier :: "api_key \<Rightarrow> string" where
  "getApiKeyIdentifier key =
     (case key of
        None \<Rightarrow> ''no_key''
      | Some k \<Rightarrow> if k = [] then ''no_key'' else ''key_'' @ slice_last 4 k)"

section \<open>Application state\<close>

record attached_file =
  file_name :: string
  file_type :: string
  file_size :: int
  file_data :: string

record session =
  sess_model :: string
  history :: "message list"
  systemPromptId :: "string option"

record loading_state =
  status :: string
  startTime :: int

record token_usage =
  totalTokenCount :: int

record key_usage =
  calls :: "(string \<rightharpoonup> int) option"

record daily_usage =
  usageByKey :: "(string \<rightharpoonup> key_usage) option"

record settings =
  apiKey :: api_key
  fallbackApiKeys :: "api_key list option"
  dailyLimits :: "(string \<rightharpoonup> int) option"
  historyTokenLimit :: int
  temperature :: real
  topP :: real

record template =
  tpl_id :: string
  tpl_title :: string
  tpl_text :: string

text \<open>The body of a chat request, as \<^verbatim>\<open>GeminiAPIService.chat\<close> posts it.\<close>

record chat_request =
  rq_apiKey :: api_key
  rq_model :: string
  rq_history :: "message list"
  rq_historyTokenLimit :: int
  rq_systemPrompt :: string
  rq_temperature :: real
  rq_topP :: real

text \<open>What \<^verbatim>\<open>fetch\<close> resolves to, with the fields of the parsed body the service reads.\<close>

record http_response =
  resp_ok :: bool
  resp_status :: int
  data_message :: "string option"
  data_reply_text :: string
  data_usage :: token_usage

record api_response =
  reply_text :: string
  resp_usage :: token_usage
  usedApiKey :: api_key

text \<open>One call of the ledger's recording operation, with its arguments.\<close>

record usage_entry =
  ue_sessionId :: string
  ue_model :: string
  ue_usage :: token_usage
  ue_keyIdentifier :: string
  ue_isQuotaRejection :: bool

text \<open>An \<^verbatim>\<open>AbortController\<close>, with the \<^verbatim>\<open>aborted\<close> flag of its signal.\<close>

datatype abort_controller = AbortController bool

text \<open>
  The state the service works on: the fields of \<^verbatim>\<open>appState\<close> it touches, the module
  variable \<^verbatim>\<open>currentRequestController\<close>, the text of the input area, the prompt
  templates persisted in local storage, the requests sent to the backend so far and the
  usage ledger. The calls of the rendering collaborators (\<^verbatim>\<open>ChatContainer\<close>,
  \<^verbatim>\<open>SessionList\<close>, \<^verbatim>\<open>InputArea\<close>, \<^verbatim>\<open>Toast\<close>), of \<^verbatim>\<open>AnimationManager.stop\<close> and of
  \<^verbatim>\<open>Session.updateTitleFromHistory\<close> change nothing of this state; the title of a session
  is not part of it.
\<close>

record state =
  sessions :: "string \<rightharpoonup> session"
  loadingStates :: "string \<rightharpoonup> loading_state"
  activeSessionId :: "string option"
  attachedFiles :: "attached_file list"
  settings :: settings
  dailyUsage :: daily_usage
  currentRequestController :: "abort_controller option"
  inputText :: string
  storedTemplates :: "template list"
  gatewayLog :: "chat_request list"
  ledger :: "usage_entry list"

text \<open>
  The calls the lifecycle makes to its collaborators inside its \<^verbatim>\<open>try\<close> blocks. None of
  the collaborators is among the sources; each call either returns or throws, and the
  lifecycle has handlers for what they throw.
\<close>

datatype collaborator_call =
    InputArea_render
  | SessionList_render
  | ChatContainer_manageThinkingIndicator string bool
  | ChatContainer_appendMessage string message
  | Session_updateTitleFromHistory string
  | Toast_show

text \<open>
  The environment of a run: what \<^verbatim>\<open>fetch\<close> answers to a request (given the requests
  sent before it, so that any sequence of outcomes is an environment), the clock, the
  identity given to a new message, and the error a call to a collaborator throws (\<open>None\<close>
  when it returns).
\<close>

record env =
  fetch :: "chat_request list \<Rightarrow> chat_request \<Rightarrow> js_error + http_response"
  dateNow :: "chat_request list \<Rightarrow> int"
  newMessageId :: "message list \<Rightarrow> string"
  throws :: "collaborator_call \<Rightarrow> js_error option"

text \<open>A sequence of calls to collaborators: the error of the first one that throws.\<close>

fun firstThrown :: "env \<Rightarrow> collaborator_call list \<Rightarrow> js_error option" where
  "firstThrown env [] = None"
| "firstThrown env (c # cs) =
     (case throws env c of Some error \<Rightarrow> Some error | None \<Rightarrow> firstThrown env cs)"

section \<open>Collaborators of the session manager\<close>

text \<open>
  Modelled from the spec: \<^verbatim>\<open>Session.addMessage\<close> of \<^verbatim>\<open>SessionManager.js\<close>, which is not
  among the sources. The spec has it append a message with the given role, parts and
  metadata to the history of the conversation and return it. On a conversation that does
  not exist the model raises, as a property access on an absent session does.
\<close>

definition addMessage ::
  "env \<Rightarrow> string \<Rightarrow> role \<Rightarrow> part list \<Rightarrow> metadata option \<Rightarrow> state \<Rightarrow> js_error + (message \<times> state)" where
  "addMessage env sessionId r ps md s =
     (case sessions s sessionId of
        None \<Rightarrow> Inl \<lparr>err_name = ''TypeError'',
                     err_message = ''Cannot read properties of undefined'',
                     err_status = None\<rparr>
      | Some session \<Rightarrow>
          (let m = \<lparr>msg_id = newMessageId env (history session), msg_role = r,
                    parts = ps, msg_metadata = md\<rparr>
           in Inr (m, s\<lparr>sessions := (sessions s)
                         (sessionId \<mapsto> session\<lparr>history := history session @ [m]\<rparr>)\<rparr>)))"

text \<open>
  Modelled from the spec: \<^verbatim>\<open>Session.recordApiUsage\<close> of \<^verbatim>\<open>SessionManager.js\<close>, which is
  not among the sources. The spec has it append a usage increment to the ledger, with a
  flag telling a quota rejection from a served call, and never fail; the model keeps the
  increments in the order they were recorded. How an increment changes the call counts of
  \<^verbatim>\<open>dailyUsage\<close> is left open by the spec: the counts are read once, when a run selects
  its credentials, and the model leaves them as they are.
\<close>

definition recordApiUsage ::
  "string \<Rightarrow> string \<Rightarrow> token_usage \<Rightarrow> string \<Rightarrow> bool \<Rightarrow> state \<Rightarrow> state" where
  "recordApiUsage sessionId model u keyIdentifier isQuotaRejection s =
     s\<lparr>ledger := ledger s @
         [\<lparr>ue_sessionId = sessionId, ue_model = model, ue_usage = u,
           ue_keyIdentifier = keyIdentifier, ue_isQuotaRejection = isQuotaRejection\<rparr>]\<rparr>"

section \<open>Backend gateway\<close>

text \<open>
  \<^verbatim>\<open>
  async function apiCall(endpoint, body, signal) {
      const response = await fetch(endpoint, {...});
      const data = await response.json();
      if (!response.ok) {
          const error = new Error(data.message || 'API request failed');
          error.status = response.status;
          error.data = data;
          throw error;
      }
      return data;
  }
  \<close>
  A rejected \<^verbatim>\<open>fetch\<close> (network failure, abort through the signal) or a body that does not
  parse is the \<open>Inl\<close> answer of the environment.
\<close>

definition apiCall :: "env \<Rightarrow> chat_request list \<Rightarrow> chat_request \<Rightarrow> js_error + http_response" where
  "apiCall env sent body =
     (case fetch env sent body of
        Inl error \<Rightarrow> Inl error
      | Inr response \<Rightarrow>
          if \<not> resp_ok response
          then Inl \<lparr>err_name = ''Error'',
                    err_message = (case data_message response of
                                     None \<Rightarrow> ''API request failed''
                                   | Some m \<Rightarrow> if m = [] then ''API request failed'' else m),
                    err_status = Some (resp_status response)\<rparr>
          else Inr response)"

text \<open>
  \<^verbatim>\<open>
  export async function chat(apiKey, model, history, historyTokenLimit, systemPrompt, temperature, topP, signal) {
      const body = { apiKey, model, history, historyTokenLimit, systemPrompt, temperature, topP };
      const response = await apiCall('/api/chat', body, signal);
      return { reply: response.reply, usage: response.usage, usedApiKey: apiKey };
  }
  \<close>
\<close>

definition chat :: "env \<Rightarrow> chat_request \<Rightarrow> state \<Rightarrow> (js_error + api_response) \<times> state" where
  "chat env body s =
     ((case apiCall env (gatewayLog s) body of
         Inl error \<Rightarrow> Inl error
       | Inr response \<Rightarrow>
           Inr \<lparr>reply_text = data_reply_text response, resp_usage = data_usage response,
                usedApiKey = rq_apiKey body\<rparr>),
      s\<lparr>gatewayLog := gatewayLog s @ [body]\<rparr>)"

section \<open>Request orchestrator\<close>

text \<open>
  The head of \<^verbatim>\<open>callChatApi\<close>, which selects the credentials to try:
  \<^verbatim>\<open>
  const primaryKey = settings.apiKey;
  const fallbackKeys = settings.fallbackApiKeys || [];
  const allKeys = [primaryKey, ...fallbackKeys].filter(Boolean);
  const limits = settings.dailyLimits || {};
  const modelLimit = limits[model] || 0;
  const usableKeys = allKeys.filter(key => {
      if (modelLimit === 0) return true;
      const keyId = getApiKeyIdentifier(key);
      const usage = dailyUsage.usageByKey?.[keyId]?.calls?.[model] || 0;
      return usage < modelLimit;
  });
  \<close>
\<close>

definition configuredKeys :: "state \<Rightarrow> api_key list" where
  "configuredKeys s =
     apiKey (settings s) #
     (case fallbackApiKeys (settings s) of None \<Rightarrow> [] | Some fallbackKeys \<Rightarrow> fallbackKeys)"

definition allKeys :: "state \<Rightarrow> api_key list" where
  "allKeys s = filter truthy (configuredKeys s)"

definition modelLimit :: "state \<Rightarrow> string \<Rightarrow> int" where
  "modelLimit s model =
     (case dailyLimits (settings s) of
        None \<Rightarrow> 0
      | Some limits \<Rightarrow> (case limits model of None \<Rightarrow> 0 | Some n \<Rightarrow> n))"

definition usageOf :: "state \<Rightarrow> string \<Rightarrow> string \<Rightarrow> int" where
  "usageOf s keyId model =
     (case usageByKey (dailyUsage s) of
        None \<Rightarrow> 0
      | Some byKey \<Rightarrow>
          (case byKey keyId of
             None \<Rightarrow> 0
           | Some ku \<Rightarrow>
               (case calls ku of
                  None \<Rightarrow> 0
                | Some c \<Rightarrow> (case c model of None \<Rightarrow> 0 | Some n \<Rightarrow> n))))"

definition usableKey :: "state \<Rightarrow> string \<Rightarrow> api_key \<Rightarrow> bool" where
  "usableKey s model key =
     (if modelLimit s model = 0 then True
      else usageOf s (getApiKeyIdentifier key) model < modelLimit s model)"

definition usableKeys :: "state \<Rightarrow> string \<Rightarrow> api_key list" where
  "usableKeys s model = filter (usableKey s model) (allKeys s)"

text \<open>The two errors \<^verbatim>\<open>callChatApi\<close> raises itself, with their messages.\<close>

definition dailyLimitPrefix :: string where
  "dailyLimitPrefix =
     [CHR 0xEC, CHR 0x9D, CHR 0xBC, CHR 0xEC, CHR 0x9D, CHR 0xBC] @ '' '' @
     [CHR 0xED, CHR 0x98, CHR 0xB8, CHR 0xEC, CHR 0xB6, CHR 0x9C] @ '' '' @
     [CHR 0xEC, CHR 0xA0, CHR 0x9C, CHR 0xED, CHR 0x95, CHR 0x9C, CHR 0xEC, CHR 0x97, CHR 0x90] @ '' '' @
     [CHR 0xEB, CHR 0x8F, CHR 0x84, CHR 0xEB, CHR 0x8B, CHR 0xAC, CHR 0xED, CHR 0x96, CHR 0x88,
      CHR 0xEC, CHR 0x8A, CHR 0xB5, CHR 0xEB, CHR 0x8B, CHR 0x88, CHR 0xEB, CHR 0x8B, CHR 0xA4] @ ''. '' @
     [CHR 0xEC, CHR 0x9D, CHR 0xB4] @ '' '' @
     [CHR 0xEB, CHR 0xAA, CHR 0xA8, CHR 0xEB, CHR 0x8D, CHR 0xB8] @ ''(''"

definition dailyLimitSuffix :: string where
  "dailyLimitSuffix =
     '')'' @ [CHR 0xEC, CHR 0x9D, CHR 0x80] @ '' '' @
     [CHR 0xEC, CHR 0x98, CHR 0xA4, CHR 0xEB, CHR 0x8A, CHR 0x98] @ '' '' @
     [CHR 0xEB, CHR 0x8D, CHR 0x94] @ '' '' @
     [CHR 0xEC, CHR 0x9D, CHR 0xB4, CHR 0xEC, CHR 0x83, CHR 0x81] @ '' '' @
     [CHR 0xEC, CHR 0x82, CHR 0xAC, CHR 0xEC, CHR 0x9A, CHR 0xA9, CHR 0xED, CHR 0x95, CHR 0xA0] @ '' '' @
     [CHR 0xEC, CHR 0x88, CHR 0x98] @ '' '' @
     [CHR 0xEC, CHR 0x97, CHR 0x86, CHR 0xEC, CHR 0x8A, CHR 0xB5, CHR 0xEB, CHR 0x8B, CHR 0x88,
      CHR 0xEB, CHR 0x8B, CHR 0xA4] @ ''.''"

definition dailyLimitMessage :: "string \<Rightarrow> string" where
  "dailyLimitMessage model = dailyLimitPrefix @ model @ dailyLimitSuffix"

definition allKeysDepletedMessage :: string where
  "allKeysDepletedMessage =
     [CHR 0xEB, CHR 0xAA, CHR 0xA8, CHR 0xEB, CHR 0x93, CHR 0xA0] @ '' API '' @
     [CHR 0xED, CHR 0x82, CHR 0xA4, CHR 0xEC, CHR 0x9D, CHR 0x98] @ '' '' @
     [CHR 0xED, CHR 0x95, CHR 0xA0, CHR 0xEB, CHR 0x8B, CHR 0xB9, CHR 0xEB, CHR 0x9F, CHR 0x89,
      CHR 0xEC, CHR 0x9D, CHR 0xB4] @ '' '' @
     [CHR 0xEC, CHR 0x86, CHR 0x8C, CHR 0xEC, CHR 0xA7, CHR 0x84, CHR 0xEB, CHR 0x90, CHR 0x98,
      CHR 0xEC, CHR 0x97, CHR 0x88, CHR 0xEA, CHR 0xB1, CHR 0xB0, CHR 0xEB, CHR 0x82, CHR 0x98] @ '' '' @
     [CHR 0xEC, CHR 0x9C, CHR 0xA0, CHR 0xED, CHR 0x9A, CHR 0xA8, CHR 0xED, CHR 0x95, CHR 0x98,
      CHR 0xEC, CHR 0xA7, CHR 0x80] @ '' '' @
     [CHR 0xEC, CHR 0x95, CHR 0x8A, CHR 0xEC, CHR 0x8A, CHR 0xB5, CHR 0xEB, CHR 0x8B, CHR 0x88,
      CHR 0xEB, CHR 0x8B, CHR 0xA4] @ ''.''"

text \<open>
  The classification of a caught error in the loop of \<^verbatim>\<open>callChatApi\<close>:
  \<^verbatim>\<open>
  if (error.name === 'AbortError') throw error;
  const isQuotaError = error.message.toLowerCase().includes('quota') || error.status === 429;
  \<close>
\<close>

definition isAbortError :: "js_error \<Rightarrow> bool" where
  "isAbortError error = (err_name error = ''AbortError'')"

definition isQuotaError :: "js_error \<Rightarrow> bool" where
  "isQuotaError error =
     (str_includes (toLowerCase (err_message error)) ''quota'' \<or> err_status error = Some 429)"

definition zeroUsage :: token_usage where
  "zeroUsage = \<lparr>totalTokenCount = 0\<rparr>"

text \<open>
  The loop over the usable credentials. The result is the error thrown out of the loop, or
  the value of \<^verbatim>\<open>apiResponse\<close> after it (\<open>None\<close> while it is still unassigned).
  \<^verbatim>\<open>
  for (const apiKey of usableKeys) {
      try {
          apiResponse = await GeminiAPIService.chat(apiKey, model, history, ...);
          break;
      } catch (error) {
          if (error.name === 'AbortError') throw error;
          const isQuotaError = ...;
          if (isQuotaError) {
              Session.recordApiUsage(appState, sessionId, model, { totalTokenCount: 0 }, getApiKeyIdentifier(apiKey), true);
          } else { throw error; }
      }
  }
  \<close>
  The request \<open>body\<close> carries the arguments that are the same for every credential.
\<close>

fun tryKeys ::
  "env \<Rightarrow> string \<Rightarrow> chat_request \<Rightarrow> api_key list \<Rightarrow> state \<Rightarrow> (js_error + api_response option) \<times> state" where
  "tryKeys env sessionId body [] s = (Inr None, s)"
| "tryKeys env sessionId body (key # rest) s =
     (case chat env (body\<lparr>rq_apiKey := key\<rparr>) s of
        (Inr apiResponse, s1) \<Rightarrow> (Inr (Some apiResponse), s1)
      | (Inl error, s1) \<Rightarrow>
          if isAbortError error then (Inl error, s1)
          else if isQuotaError error
          then tryKeys env sessionId body rest
                 (recordApiUsage sessionId (rq_model body) zeroUsage (getApiKeyIdentifier key) True s1)
          else (Inl error, s1))"

text \<open>
  \<^verbatim>\<open>
  async function callChatApi(sessionId, model, history, historyTokenLimit, systemPrompt, temperature, topP, signal) {
      ...
      if (usableKeys.length === 0) {
          throw new Error(`... (${model}) ...`);
      }
      let apiResponse;
      for (const apiKey of usableKeys) { ... }
      if (!apiResponse) throw new Error("...");
      return apiResponse;
  }
  \<close>
\<close>

definition callChatApi ::
  "env \<Rightarrow> string \<Rightarrow> string \<Rightarrow> message list \<Rightarrow> int \<Rightarrow> string \<Rightarrow> real \<Rightarrow> real \<Rightarrow> state \<Rightarrow>
   (js_error + api_response) \<times> state" where
  "callChatApi env sessionId model hist tokenLimit systemPrompt temp tp s =
     (if usableKeys s model = [] then (Inl (Error (dailyLimitMessage model)), s)
      else
        (case tryKeys env sessionId
                \<lparr>rq_apiKey = None, rq_model = model, rq_history = hist,
                 rq_historyTokenLimit = tokenLimit, rq_systemPrompt = systemPrompt,
                 rq_temperature = temp, rq_topP = tp\<rparr>
                (usableKeys s model) s of
           (Inl error, s1) \<Rightarrow> (Inl error, s1)
         | (Inr None, s1) \<Rightarrow> (Inl (Error allKeysDepletedMessage), s1)
         | (Inr (Some apiResponse), s1) \<Rightarrow> (Inr apiResponse, s1)))"

section \<open>Conversation lifecycle\<close>

definition LATEX_FORMATTING_RULE :: string where
  "LATEX_FORMATTING_RULE =
     ''--- SYSTEM RULE --- You MUST NOT wrap LaTeX formulas in ```latex code blocks. '' @
     ''Instead, you MUST present all mathematical formulas using standard LaTeX delimiters '' @
     ''($$...$$ for display, $...$ for inline) directly within the text. '' @
     ''This is a strict rendering requirement.''"

definition cancelledText :: string where
  "cancelledText =
     [CHR 0xEC, CHR 0x9D, CHR 0x91, CHR 0xEB, CHR 0x8B, CHR 0xB5] @ '' '' @
     [CHR 0xEC, CHR 0x83, CHR 0x9D, CHR 0xEC, CHR 0x84, CHR 0xB1, CHR 0xEC, CHR 0x9D, CHR 0xB4] @ '' '' @
     [CHR 0xEC, CHR 0xB7, CHR 0xA8, CHR 0xEC, CHR 0x86, CHR 0x8C, CHR 0xEB, CHR 0x90, CHR 0x98,
      CHR 0xEC, CHR 0x97, CHR 0x88, CHR 0xEC, CHR 0x8A, CHR 0xB5, CHR 0xEB, CHR 0x8B, CHR 0x88,
      CHR 0xEB, CHR 0x8B, CHR 0xA4] @ ''.''"

definition errorPrefix :: string where
  "errorPrefix = [CHR 0xEC, CHR 0x98, CHR 0xA4, CHR 0xEB, CHR 0xA5, CHR 0x98] @ '': ''"

definition criticalPrefix :: string where
  "criticalPrefix =
     [CHR 0xEC, CHR 0xA0, CHR 0x84, CHR 0xEC, CHR 0x86, CHR 0xA1] @ '' '' @
     [CHR 0xEC, CHR 0xA4, CHR 0x91] @ '' '' @
     [CHR 0xEC, CHR 0xB9, CHR 0x98, CHR 0xEB, CHR 0xAA, CHR 0x85, CHR 0xEC, CHR 0xA0, CHR 0x81] @ '' '' @
     [CHR 0xEC, CHR 0x98, CHR 0xA4, CHR 0xEB, CHR 0xA5, CHR 0x98] @ '' '' @
     [CHR 0xEB, CHR 0xB0, CHR 0x9C, CHR 0xEC, CHR 0x83, CHR 0x9D] @ '': ''"

text \<open>
  The system prompt of a run (\<^verbatim>\<open>executeChat\<close>): the text of the template the session
  refers to, looked up in the templates read back from local storage, followed by the
  formatting rule.
  \<^verbatim>\<open>
  const template = freshTemplates.find(t => t.id === session.systemPromptId);
  const userSystemPrompt = template ? template.text : '';
  const systemPrompt = userSystemPrompt ?
      `${userSystemPrompt}\n\n${LATEX_FORMATTING_RULE}`.trim() :
      LATEX_FORMATTING_RULE;
  \<close>
\<close>

definition systemPromptOf :: "state \<Rightarrow> session \<Rightarrow> string" where
  "systemPromptOf s session =
     (let template = find (\<lambda>t. Some (tpl_id t) = systemPromptId session) (storedTemplates s);
          userSystemPrompt = (case template of None \<Rightarrow> [] | Some t \<Rightarrow> tpl_text t)
      in if userSystemPrompt \<noteq> []
         then trim (userSystemPrompt @ [CHR 0x0A, CHR 0x0A] @ LATEX_FORMATTING_RULE)
         else LATEX_FORMATTING_RULE)"

text \<open>
  The request \<^verbatim>\<open>executeChat\<close> makes for a session:
  \<^verbatim>\<open>
  const { historyTokenLimit } = appState.settings;
  const filteredHistory = filterHistoryForApi(session.history);
  const { temperature, topP } = appState.settings;
  const apiResponse = await callChatApi(sessionId, session.model, filteredHistory, historyTokenLimit, systemPrompt, temperature, topP, signal);
  \<close>
\<close>

definition sessionRequest ::
  "env \<Rightarrow> string \<Rightarrow> session \<Rightarrow> state \<Rightarrow> (js_error + api_response) \<times> state" where
  "sessionRequest env sessionId session s =
     callChatApi env sessionId (sess_model session) (filterHistoryForApi (history session))
       (historyTokenLimit (settings s)) (systemPromptOf s session)
       (temperature (settings s)) (topP (settings s)) s"

text \<open>
  The \<^verbatim>\<open>catch\<close> block of \<^verbatim>\<open>executeChat\<close>. Its result is the error it throws itself, if any.
  \<^verbatim>\<open>
  const errorMessageText = (error.name === 'AbortError') ? '...' : `...: ${error.message}`;
  const errorMessage = Session.addMessage(appState, sessionId, 'system', [{ type: 'text', text: errorMessageText }]);
  ChatContainer.appendMessage(sessionId, errorMessage);
  if (appState.loadingStates[sessionId]) {
      delete appState.loadingStates[sessionId];
      document.dispatchEvent(new CustomEvent('animation-complete', { detail: { sessionId } }));
  }
  \<close>
\<close>

definition errorMessageText :: "js_error \<Rightarrow> string" where
  "errorMessageText error =
     (if err_name error = ''AbortError'' then cancelledText
      else errorPrefix @ err_message error)"

definition executeChat_catch :: "env \<Rightarrow> string \<Rightarrow> js_error \<Rightarrow> state \<Rightarrow> js_error option \<times> state" where
  "executeChat_catch env sessionId error s =
     (case addMessage env sessionId System [TextPart (errorMessageText error)] None s of
        Inl thrown \<Rightarrow> (Some thrown, s)
      | Inr (errorMessage, s1) \<Rightarrow>
          (case throws env (ChatContainer_appendMessage sessionId errorMessage) of
             Some thrown \<Rightarrow> (Some thrown, s1)
           | None \<Rightarrow>
               (None,
                if loadingStates s1 sessionId \<noteq> None
                then s1\<lparr>loadingStates := (loadingStates s1)(sessionId := None)\<rparr>
                else s1)))"

text \<open>
  The rest of the \<^verbatim>\<open>try\<close> block of \<^verbatim>\<open>executeChat\<close> after a response arrived. Its result is
  the error thrown in it, if any.
  \<^verbatim>\<open>
  const keyIdentifier = getApiKeyIdentifier(apiResponse.usedApiKey);
  Session.recordApiUsage(appState, sessionId, session.model, apiResponse.usage, keyIdentifier);
  const fullResponseText = apiResponse.reply.text;
  const thinkingTime = Date.now() - (appState.loadingStates[sessionId]?.startTime || Date.now());
  const metadata = { thinkingTime, modelUsed: session.model, completionTimestamp: Date.now(), receivedAt: Date.now() };
  const newMessage = Session.addMessage(appState, sessionId, 'model', [{ type: 'text', text: fullResponseText }], metadata);
  ChatContainer.appendMessage(sessionId, newMessage);
  Session.updateTitleFromHistory(appState, sessionId);
  SessionList.render(appState);
  if (appState.activeSessionId !== sessionId) {
      Toast.show(...);
  }
  \<close>
\<close>

definition executeChat_rest ::
  "env \<Rightarrow> string \<Rightarrow> session \<Rightarrow> api_response \<Rightarrow> state \<Rightarrow> js_error option \<times> state" where
  "executeChat_rest env sessionId session apiResponse s =
     (let keyIdentifier = getApiKeyIdentifier (usedApiKey apiResponse);
          s1 = recordApiUsage sessionId (sess_model session) (resp_usage apiResponse)
                 keyIdentifier False s;
          now = dateNow env (gatewayLog s1);
          started = (case loadingStates s1 sessionId of
                       None \<Rightarrow> now
                     | Some l \<Rightarrow> if startTime l = 0 then now else startTime l);
          md = \<lparr>thinkingTime = now - started, modelUsed = sess_model session,
                completionTimestamp = now, receivedAt = now\<rparr>
      in case addMessage env sessionId Model [TextPart (reply_text apiResponse)] (Some md) s1 of
           Inl error \<Rightarrow> (Some error, s1)
         | Inr (newMessage, s2) \<Rightarrow>
             (firstThrown env
                ([ChatContainer_appendMessage sessionId newMessage,
                  Session_updateTitleFromHistory sessionId, SessionList_render] @
                 (if activeSessionId s2 \<noteq> Some sessionId then [Toast_show] else [])),
              s2))"

text \<open>
  The \<^verbatim>\<open>try\<close> block of \<^verbatim>\<open>executeChat\<close> for a session: the request, then the rest of the
  block. Its result is the error thrown in it, if any.
\<close>

definition executeChat_try ::
  "env \<Rightarrow> string \<Rightarrow> session \<Rightarrow> state \<Rightarrow> js_error option \<times> state" where
  "executeChat_try env sessionId session s =
     (case sessionRequest env sessionId session s of
        (Inl error, s1) \<Rightarrow> (Some error, s1)
      | (Inr apiResponse, s1) \<Rightarrow> executeChat_rest env sessionId session apiResponse s1)"

text \<open>
  \<^verbatim>\<open>
  async function executeChat(sessionId, signal) {
      const session = appState.sessions[sessionId];
      if (!session) return;
      try { ... } catch (error) { ... }
  }
  \<close>
  The result is the error thrown out of \<^verbatim>\<open>executeChat\<close>, if any.
\<close>

definition executeChat :: "env \<Rightarrow> string \<Rightarrow> state \<Rightarrow> js_error option \<times> state" where
  "executeChat env sessionId s =
     (case sessions s sessionId of
        None \<Rightarrow> (None, s)
      | Some session \<Rightarrow>
          (case executeChat_try env sessionId session s of
             (None, s1) \<Rightarrow> (None, s1)
           | (Some error, s1) \<Rightarrow> executeChat_catch env sessionId error s1))"

text \<open>
  \<^verbatim>\<open>
  export function cancelCurrentRequest() {
      if (currentRequestController) {
          currentRequestController.abort();
      }
  }
  \<close>
\<close>

definition cancelCurrentRequest :: "state \<Rightarrow> state" where
  "cancelCurrentRequest s =
     (case currentRequestController s of
        None \<Rightarrow> s
      | Some c \<Rightarrow> s\<lparr>currentRequestController := Some (AbortController True)\<rparr>)"

text \<open>
  The entry of \<^verbatim>\<open>runChatLifecycle\<close>:
  \<^verbatim>\<open>
  currentRequestController = new AbortController();
  try {
      appState.loadingStates[sessionId] = { status: 'thinking', startTime: Date.now() };
  \<close>
\<close>

definition enterThinking :: "env \<Rightarrow> string \<Rightarrow> state \<Rightarrow> state" where
  "enterThinking env sessionId s =
     s\<lparr>currentRequestController := Some (AbortController False),
       loadingStates := (loadingStates s)
         (sessionId \<mapsto> \<lparr>status = ''thinking'', startTime = dateNow env (gatewayLog s)\<rparr>)\<rparr>"

text \<open>
  The \<^verbatim>\<open>catch\<close> and \<^verbatim>\<open>finally\<close> blocks of \<^verbatim>\<open>runChatLifecycle\<close>, given what its \<^verbatim>\<open>try\<close>
  block threw (\<open>None\<close> when it completed). The result is the error the promise of
  \<^verbatim>\<open>runChatLifecycle\<close> rejects with, if any.
  \<^verbatim>\<open>
  } catch (error) {
      const errorMessage = Session.addMessage(appState, sessionId, 'system', [{ type: 'text', text: `...: ${error.message}` }]);
      ChatContainer.appendMessage(sessionId, errorMessage);
  } finally {
      currentRequestController = null;
  }
  \<close>
\<close>

definition lifecycle_end ::
  "env \<Rightarrow> string \<Rightarrow> js_error option \<Rightarrow> state \<Rightarrow> js_error option \<times> state" where
  "lifecycle_end env sessionId thrown s =
     (case thrown of
        None \<Rightarrow> (None, s\<lparr>currentRequestController := None\<rparr>)
      | Some error \<Rightarrow>
          (case addMessage env sessionId System
                  [TextPart (criticalPrefix @ err_message error)] None s of
             Inl rethrown \<Rightarrow> (Some rethrown, s\<lparr>currentRequestController := None\<rparr>)
           | Inr (errorMessage, s1) \<Rightarrow>
               (case throws env (ChatContainer_appendMessage sessionId errorMessage) of
                  Some rethrown \<Rightarrow> (Some rethrown, s1\<lparr>currentRequestController := None\<rparr>)
                | None \<Rightarrow> (None, s1\<lparr>currentRequestController := None\<rparr>))))"

text \<open>The calls to collaborators at the entry of the lifecycle.\<close>

definition entryCalls :: "string \<Rightarrow> collaborator_call list" where
  "entryCalls sessionId =
     [InputArea_render, SessionList_render, ChatContainer_manageThinkingIndicator sessionId True]"

text \<open>
  \<^verbatim>\<open>
  async function runChatLifecycle(sessionId) {
      currentRequestController = new AbortController();
      try {
          appState.loadingStates[sessionId] = { status: 'thinking', startTime: Date.now() };
          InputArea.render(appState);
          SessionList.render(appState);
          ChatContainer.manageThinkingIndicator(sessionId, true);
          await executeChat(sessionId, currentRequestController.signal);
      } catch (error) {
          const errorMessage = Session.addMessage(appState, sessionId, 'system', [{ type: 'text', text: `...: ${error.message}` }]);
          ChatContainer.appendMessage(sessionId, errorMessage);
      } finally {
          currentRequestController = null;
      }
  }
  \<close>
  The result is the error the returned promise rejects with, if any.
\<close>

definition runChatLifecycle :: "env \<Rightarrow> string \<Rightarrow> state \<Rightarrow> js_error option \<times> state" where
  "runChatLifecycle env sessionId s =
     (case firstThrown env (entryCalls sessionId) of
        Some error \<Rightarrow> lifecycle_end env sessionId (Some error) (enterThinking env sessionId s)
      | None \<Rightarrow>
          (case executeChat env sessionId (enterThinking env sessionId s) of
             (thrown, s1) \<Rightarrow> lifecycle_end env sessionId thrown s1))"

section \<open>Building the parts of a user message\<close>

text \<open>
  \<^verbatim>\<open>
  function getLanguageName(filename) {
      const extension = (filename || '').split('.').pop().toLowerCase();
      const map = { js: 'JavaScript', ... };
      return map[extension] || extension.toUpperCase() || 'File';
  }
  \<close>
  The table is read for its own keys only.
\<close>

definition languageTable :: "(string \<times> string) list" where
  "languageTable =
     [(''js'', ''JavaScript''), (''py'', ''Python''), (''html'', ''HTML''), (''css'', ''CSS''),
      (''json'', ''JSON''), (''md'', ''Markdown''), (''java'', ''Java''), (''c'', ''C''),
      (''cpp'', ''C++''), (''cs'', ''C#''), (''go'', ''Go''), (''php'', ''PHP''),
      (''rb'', ''Ruby''), (''rs'', ''Rust''), (''sh'', ''Shell''), (''ts'', ''TypeScript''),
      (''xml'', ''XML''), (''yaml'', ''YAML''), (''yml'', ''YAML''), (''txt'', ''Text''),
      (''pdf'', ''PDF'')]"

definition getLanguageName :: "string \<Rightarrow> string" where
  "getLanguageName filename =
     (let extension = toLowerCase (last (split_on (CHR ''.'') filename))
      in case map_of languageTable extension of
           Some l \<Rightarrow> l
         | None \<Rightarrow> if toUpperCase extension \<noteq> [] then toUpperCase extension else ''File'')"

text \<open>
  \<^verbatim>\<open>
  function createCodeSummary(file, content) {
      const lines = content.split('\n');
      const lineCount = lines.length;
      return { filename: file.name, size: file.size, language: getLanguageName(file.name), lineCount: lineCount, fullCode: content };
  }
  \<close>
\<close>

definition createCodeSummary :: "attached_file \<Rightarrow> string \<Rightarrow> code_summary" where
  "createCodeSummary f content =
     \<lparr>cs_filename = file_name f, cs_size = file_size f,
      cs_language = getLanguageName (file_name f),
      cs_lineCount = length (split_on (CHR 0x0A) content), cs_fullCode = content\<rparr>"

text \<open>
  \<^verbatim>\<open>
  export async function prepareMessageParts(messageText, attachedFiles = []) {
      const parts = [];
      for (const file of attachedFiles) {
          if (file.type.startsWith('image/')) {
              parts.push({ type: 'image', mimeType: file.type, data: file.data });
          } else if (file.type === 'application/pdf') {
              parts.push({ type: 'pdf-attachment', name: file.name, data: file.data });
          } else {
              const summary = createCodeSummary(file, file.data);
              parts.push({ type: 'code-summary', summary: summary });
          }
      }
      if (messageText) {
          parts.push({ type: 'text', text: messageText });
      }
      return parts;
  }
  \<close>
\<close>

definition filePart :: "attached_file \<Rightarrow> part" where
  "filePart f =
     (if prefix ''image/'' (file_type f) then ImagePart (file_type f) (file_data f)
      else if file_type f = ''application/pdf'' then PdfAttachment (file_name f) (file_data f)
      else CodeSummary (createCodeSummary f (file_data f)))"

definition prepareMessageParts :: "string \<Rightarrow> attached_file list \<Rightarrow> part list" where
  "prepareMessageParts messageText files =
     map filePart files @ (if messageText \<noteq> [] then [TextPart messageText] else [])"

section \<open>Operations of the lifecycle controller\<close>

text \<open>
  The three operations call their collaborators (\<^verbatim>\<open>AnimationManager.stop\<close>,
  \<^verbatim>\<open>ChatContainer.appendMessage\<close>, \<^verbatim>\<open>ChatContainer.rerenderSessionView\<close>,
  \<^verbatim>\<open>InputArea.clearInput\<close>, \<^verbatim>\<open>Toast.show\<close>) outside any handler; these calls are taken to
  return.
\<close>

text \<open>
  \<^verbatim>\<open>
  export async function sendMessage() {
      const sessionId = appState.activeSessionId;
      if (!sessionId || appState.loadingStates[sessionId]) return;
      const messageText = InputArea.getTextValue();
      const files = [...appState.attachedFiles];
      if (!messageText && files.length === 0) {
          Toast.show("...");
          return;
      }
      AnimationManager.stop(sessionId);
      const userMessageParts = await prepareMessageParts(messageText, files);
      const newMessage = Session.addMessage(appState, sessionId, 'user', userMessageParts);
      ChatContainer.appendMessage(sessionId, newMessage);
      InputArea.clearInput();
      appState.attachedFiles = [];
      await runChatLifecycle(sessionId);
  }
  \<close>
\<close>

definition sendMessage :: "env \<Rightarrow> state \<Rightarrow> js_error option \<times> state" where
  "sendMessage env s =
     (case activeSessionId s of
        None \<Rightarrow> (None, s)
      | Some sessionId \<Rightarrow>
          if sessionId = [] \<or> loadingStates s sessionId \<noteq> None then (None, s)
          else
            (let messageText = inputText s; files = attachedFiles s
             in if messageText = [] \<and> files = [] then (None, s)
                else
                  (case addMessage env sessionId User
                          (prepareMessageParts messageText files) None s of
                     Inl thrown \<Rightarrow> (Some thrown, s)
                   | Inr (newMessage, s1) \<Rightarrow>
                       runChatLifecycle env sessionId
                         (s1\<lparr>inputText := [], attachedFiles := []\<rparr>))))"

text \<open>
  The part of \<^verbatim>\<open>regenerate\<close> before the lifecycle is entered. The result is \<open>None\<close> when
  the function returns early, and the state in which the lifecycle is entered otherwise.
  \<^verbatim>\<open>
  const session = appState.sessions[sessionId];
  if (!session || appState.loadingStates[sessionId]) return;
  AnimationManager.stop(sessionId);
  const messageIndex = session.history.findIndex(m => m.id === messageId);
  if (messageIndex < 1 || session.history[messageIndex].role !== 'model') return;
  const lastUserMessageIndex = session.history.slice(0, messageIndex).findLastIndex(m => m.role === 'user');
  if (lastUserMessageIndex === -1) return;
  session.history.splice(lastUserMessageIndex + 1);
  \<close>
\<close>

definition regenerate_truncate :: "string \<Rightarrow> string \<Rightarrow> state \<Rightarrow> state option" where
  "regenerate_truncate sessionId messageId s =
     (case sessions s sessionId of
        None \<Rightarrow> None
      | Some session \<Rightarrow>
          if loadingStates s sessionId \<noteq> None then None
          else
            (let messageIndex = findIndex (\<lambda>m. msg_id m = messageId) (history session)
             in if messageIndex < 1 \<or> msg_role (history session ! nat messageIndex) \<noteq> Model
                then None
                else
                  (let lastUserMessageIndex =
                         findLastIndex (\<lambda>m. msg_role m = User)
                           (take (nat messageIndex) (history session))
                   in if lastUserMessageIndex = -1 then None
                      else Some (s\<lparr>sessions := (sessions s)
                             (sessionId \<mapsto> session\<lparr>history :=
                                take (nat (lastUserMessageIndex + 1)) (history session)\<rparr>)\<rparr>))))"

text \<open>
  \<^verbatim>\<open>
  export async function regenerate(sessionId, messageId) {
      ...
      ChatContainer.rerenderSessionView(sessionId);
      await runChatLifecycle(sessionId);
  }
  \<close>
\<close>

definition regenerate :: "env \<Rightarrow> string \<Rightarrow> string \<Rightarrow> state \<Rightarrow> js_error option \<times> state" where
  "regenerate env sessionId messageId s =
     (case regenerate_truncate sessionId messageId s of
        None \<Rightarrow> (None, s)
      | Some s1 \<Rightarrow> runChatLifecycle env sessionId s1)"

text \<open>
  \<^verbatim>\<open>
  export async function resubmit(sessionId) {
      if (appState.loadingStates[sessionId]) return;
      AnimationManager.stop(sessionId);
      await runChatLifecycle(sessionId);
  }
  \<close>
\<close>

definition resubmit :: "env \<Rightarrow> string \<Rightarrow> state \<Rightarrow> js_error option \<times> state" where
  "resubmit env sessionId s =
     (if loadingStates s sessionId \<noteq> None then (None, s)
      else runChatLifecycle env sessionId s)"

section \<open>The lifecycle between its suspensions\<close>

text \<open>
  The functions above run an operation to its end, with the backend answering at once. The
  functions of this section give the same code in the pieces the scheduler runs without
  interruption. \<^verbatim>\<open>sendMessage\<close> is suspended at \<^verbatim>\<open>await prepareMessageParts(...)\<close>; a run of
  the lifecycle is suspended each time \<^verbatim>\<open>apiCall\<close> awaits \<^verbatim>\<open>fetch\<close>, and its request is in
  flight until \<^verbatim>\<open>fetch\<close> settles. \<^verbatim>\<open>regenerate\<close> and \<^verbatim>\<open>resubmit\<close> await nothing before they
  call \<^verbatim>\<open>runChatLifecycle\<close>.
\<close>

text \<open>
  A run suspended at \<^verbatim>\<open>fetch\<close>: its conversation, the session object \<^verbatim>\<open>executeChat\<close> holds
  (of which it reads the model only from here on), the request in flight and the usable
  credentials not yet tried.
\<close>

record pending =
  p_sessionId :: string
  p_session :: session
  p_body :: chat_request
  p_rest :: "api_key list"

text \<open>
  Where a piece of a run ends: the promise of \<^verbatim>\<open>runChatLifecycle\<close> is settled (with the error
  it rejects with, if any), or the run is suspended with a request in flight.
\<close>

datatype progress = Settled "js_error option" | Suspended pending

definition settled :: "js_error option \<times> state \<Rightarrow> progress \<times> state" where
  "settled r = (Settled (fst r), snd r)"

text \<open>
  What \<^verbatim>\<open>apiCall\<close> and \<^verbatim>\<open>chat\<close> make of the result \<^verbatim>\<open>fetch\<close> settles with, for a request.
\<close>

definition answered :: "chat_request \<Rightarrow> js_error + http_response \<Rightarrow> js_error + api_response" where
  "answered body answer =
     (case answer of
        Inl error \<Rightarrow> Inl error
      | Inr response \<Rightarrow>
          if \<not> resp_ok response
          then Inl \<lparr>err_name = ''Error'',
                    err_message = (case data_message response of
                                     None \<Rightarrow> ''API request failed''
                                   | Some m \<Rightarrow> if m = [] then ''API request failed'' else m),
                    err_status = Some (resp_status response)\<rparr>
          else Inr \<lparr>reply_text = data_reply_text response, resp_usage = data_usage response,
                    usedApiKey = rq_apiKey body\<rparr>)"

text \<open>
  The run from the point where \<^verbatim>\<open>callChatApi\<close> returns a response or throws an error, to
  its end: the rest of the \<^verbatim>\<open>try\<close> block of \<^verbatim>\<open>executeChat\<close> or its \<^verbatim>\<open>catch\<close> block, then the
  \<^verbatim>\<open>catch\<close> and \<^verbatim>\<open>finally\<close> blocks of \<^verbatim>\<open>runChatLifecycle\<close>.
\<close>

definition lifecycle_after ::
  "env \<Rightarrow> string \<Rightarrow> session \<Rightarrow> js_error + api_response \<Rightarrow> state \<Rightarrow> js_error option \<times> state" where
  "lifecycle_after env sessionId session result s =
     (case (case result of
              Inl error \<Rightarrow> (Some error, s)
            | Inr apiResponse \<Rightarrow> executeChat_rest env sessionId session apiResponse s) of
        (None, s1) \<Rightarrow> lifecycle_end env sessionId None s1
      | (Some error, s1) \<Rightarrow>
          (case executeChat_catch env sessionId error s1 of
             (thrown, s2) \<Rightarrow> lifecycle_end env sessionId thrown s2))"

text \<open>
  The first piece of \<^verbatim>\<open>runChatLifecycle\<close>: from its entry to the first \<^verbatim>\<open>fetch\<close> of
  \<^verbatim>\<open>callChatApi\<close>, or to its end when it does not get that far.
\<close>

definition run_start :: "env \<Rightarrow> string \<Rightarrow> state \<Rightarrow> progress \<times> state" where
  "run_start env sessionId s =
     (let s0 = enterThinking env sessionId s
      in case firstThrown env (entryCalls sessionId) of
           Some error \<Rightarrow> settled (lifecycle_end env sessionId (Some error) s0)
         | None \<Rightarrow>
             (case sessions s0 sessionId of
                None \<Rightarrow> settled (lifecycle_end env sessionId None s0)
              | Some session \<Rightarrow>
                  (case usableKeys s0 (sess_model session) of
                     [] \<Rightarrow>
                       settled (lifecycle_after env sessionId session
                                  (Inl (Error (dailyLimitMessage (sess_model session)))) s0)
                   | key # rest \<Rightarrow>
                       (let body =
                              \<lparr>rq_apiKey = key, rq_model = sess_model session,
                               rq_history = filterHistoryForApi (history session),
                               rq_historyTokenLimit = historyTokenLimit (settings s0),
                               rq_systemPrompt = systemPromptOf s0 session,
                               rq_temperature = temperature (settings s0),
                               rq_topP = topP (settings s0)\<rparr>
                        in (Suspended \<lparr>p_sessionId = sessionId, p_session = session,
                                        p_body = body, p_rest = rest\<rparr>,
                            s0\<lparr>gatewayLog := gatewayLog s0 @ [body]\<rparr>)))))"

text \<open>
  The piece of a suspended run that follows the settling of its \<^verbatim>\<open>fetch\<close>: the loop of
  \<^verbatim>\<open>callChatApi\<close> goes on to the next \<^verbatim>\<open>fetch\<close>, or the run goes to its end.
\<close>

definition run_resume ::
  "env \<Rightarrow> pending \<Rightarrow> js_error + http_response \<Rightarrow> state \<Rightarrow> progress \<times> state" where
  "run_resume env p answer s =
     (case answered (p_body p) answer of
        Inr apiResponse \<Rightarrow>
          settled (lifecycle_after env (p_sessionId p) (p_session p) (Inr apiResponse) s)
      | Inl error \<Rightarrow>
          if isAbortError error
          then settled (lifecycle_after env (p_sessionId p) (p_session p) (Inl error) s)
          else if isQuotaError error
          then
            (let s1 = recordApiUsage (p_sessionId p) (rq_model (p_body p)) zeroUsage
                        (getApiKeyIdentifier (rq_apiKey (p_body p))) True s
             in case p_rest p of
                  [] \<Rightarrow>
                    settled (lifecycle_after env (p_sessionId p) (p_session p)
                               (Inl (Error allKeysDepletedMessage)) s1)
                | key # rest \<Rightarrow>
                    (Suspended (p\<lparr>p_body := (p_body p)\<lparr>rq_apiKey := key\<rparr>, p_rest := rest\<rparr>),
                     s1\<lparr>gatewayLog := gatewayLog s1 @ [(p_body p)\<lparr>rq_apiKey := key\<rparr>]\<rparr>))
          else settled (lifecycle_after env (p_sessionId p) (p_session p) (Inl error) s))"

text \<open>
  \<^verbatim>\<open>sendMessage\<close> up to its \<^verbatim>\<open>await\<close>: \<open>None\<close> when it returns, the conversation and the
  parts it goes on with otherwise.
\<close>

definition sendMessage_begin :: "state \<Rightarrow> (string \<times> part list) option" where
  "sendMessage_begin s =
     (case activeSessionId s of
        None \<Rightarrow> None
      | Some sessionId \<Rightarrow>
          if sessionId = [] \<or> loadingStates s sessionId \<noteq> None then None
          else
            (let messageText = inputText s; files = attachedFiles s
             in if messageText = [] \<and> files = [] then None
                else Some (sessionId, prepareMessageParts messageText files)))"

text \<open>\<^verbatim>\<open>sendMessage\<close> from its \<^verbatim>\<open>await\<close> on, into the first piece of the lifecycle.\<close>

definition sendMessage_resume ::
  "env \<Rightarrow> string \<times> part list \<Rightarrow> state \<Rightarrow> progress \<times> state" where
  "sendMessage_resume env c s =
     (case addMessage env (fst c) User (snd c) None s of
        Inl thrown \<Rightarrow> (Settled (Some thrown), s)
      | Inr (newMessage, s1) \<Rightarrow>
          run_start env (fst c) (s1\<lparr>inputText := [], attachedFiles := []\<rparr>))"

text \<open>
  The scheduler's view: the state, the runs with a request in flight and the calls of
  \<^verbatim>\<open>sendMessage\<close> suspended at their \<^verbatim>\<open>await\<close>.
\<close>

record system =
  sys_state :: state
  inFlight :: "pending list"
  sending :: "(string \<times> part list) list"

text \<open>
  What the scheduler runs without interruption. \<open>SendBegin\<close> is a call of \<^verbatim>\<open>sendMessage\<close>
  up to its \<^verbatim>\<open>await\<close> and \<open>SendResume\<close> the continuation of a suspended call; \<open>Send\<close> is a
  call whose continuation runs before anything else does. \<open>Response\<close> is the settling of
  the \<^verbatim>\<open>fetch\<close> of a run in flight, with what it settles with.
\<close>

datatype event =
    SendBegin
  | SendResume nat
  | Send
  | Regenerate string string
  | Resubmit string
  | Response nat "js_error + http_response"

definition without :: "nat \<Rightarrow> 'a list \<Rightarrow> 'a list" where
  "without i xs = take i xs @ drop (Suc i) xs"

definition admit :: "progress \<times> state \<Rightarrow> system \<Rightarrow> system" where
  "admit r sys =
     sys\<lparr>sys_state := snd r,
         inFlight := (case fst r of
                        Settled thrown \<Rightarrow> inFlight sys
                      | Suspended p \<Rightarrow> inFlight sys @ [p])\<rparr>"

fun step :: "env \<Rightarrow> event \<Rightarrow> system \<Rightarrow> system" where
  "step env SendBegin sys =
     (case sendMessage_begin (sys_state sys) of
        None \<Rightarrow> sys
      | Some c \<Rightarrow> sys\<lparr>sending := sending sys @ [c]\<rparr>)"
| "step env (SendResume i) sys =
     (if i < length (sending sys)
      then admit (sendMessage_resume env (sending sys ! i) (sys_state sys))
             (sys\<lparr>sending := without i (sending sys)\<rparr>)
      else sys)"
| "step env Send sys =
     (case sendMessage_begin (sys_state sys) of
        None \<Rightarrow> sys
      | Some c \<Rightarrow> admit (sendMessage_resume env c (sys_state sys)) sys)"
| "step env (Regenerate sessionId messageId) sys =
     (case regenerate_truncate sessionId messageId (sys_state sys) of
        None \<Rightarrow> sys
      | Some s1 \<Rightarrow> admit (run_start env sessionId s1) sys)"
| "step env (Resubmit sessionId) sys =
     (if loadingStates (sys_state sys) sessionId \<noteq> None then sys
      else admit (run_start env sessionId (sys_state sys)) sys)"
| "step env (Response i answer) sys =
     (if i < length (inFlight sys)
      then admit (run_resume env (inFlight sys ! i) answer (sys_state sys))
             (sys\<lparr>inFlight := without i (inFlight sys)\<rparr>)
      else sys)"




text \<open>
  A run of the lifecycle to its end, with the backend of the environment settling each
  \<^verbatim>\<open>fetch\<close> before anything else happens.
\<close>

fun complete :: "env \<Rightarrow> nat \<Rightarrow> progress \<times> state \<Rightarrow> (js_error option \<times> state) option" where
  "complete env n (Settled thrown, s) = Some (thrown, s)"
| "complete env 0 (Suspended p, s) = None"
| "complete env (Suc n) (Suspended p, s) =
     complete env n (run_resume env p (fetch env (butlast (gatewayLog s)) (p_body p)) s)"

section \<open>Vocabulary of the properties\<close>

text \<open>
  The ledger entry \<^verbatim>\<open>callChatApi\<close> records for a credential the backend rejected for
  quota: the arguments of its call of \<^verbatim>\<open>Session.recordApiUsage\<close>.
\<close>

definition quotaRejection :: "string \<Rightarrow> string \<Rightarrow> api_key \<Rightarrow> usage_entry" where
  "quotaRejection sessionId model key =
     \<lparr>ue_sessionId = sessionId, ue_model = model, ue_usage = zeroUsage,
      ue_keyIdentifier = getApiKeyIdentifier key, ue_isQuotaRejection = True\<rparr>"

text \<open>
  The request \<^verbatim>\<open>callChatApi\<close> sends for a credential: the body \<^verbatim>\<open>GeminiAPIService.chat\<close>
  builds from its arguments.
\<close>

definition requestOf ::
  "string \<Rightarrow> message list \<Rightarrow> int \<Rightarrow> string \<Rightarrow> real \<Rightarrow> real \<Rightarrow> api_key \<Rightarrow> chat_request" where
  "requestOf model hist tokenLimit systemPrompt temp tp key =
     \<lparr>rq_apiKey = key, rq_model = model, rq_history = hist,
      rq_historyTokenLimit = tokenLimit, rq_systemPrompt = systemPrompt,
      rq_temperature = temp, rq_topP = tp\<rparr>"

text \<open>The requests sent to the backend, and the ledger entries recorded, between two states.\<close>

definition requestsOfRun :: "state \<Rightarrow> state \<Rightarrow> chat_request list" where
  "requestsOfRun s s' = drop (length (gatewayLog s)) (gatewayLog s')"

definition entriesOfRun :: "state \<Rightarrow> state \<Rightarrow> usage_entry list" where
  "entriesOfRun s s' = drop (length (ledger s)) (ledger s')"

text \<open>
  The target of a regeneration, in the words of the specification: the message with the
  given identity is at position \<open>i\<close> of the history (the first one with this identity),
  it is a model message, and \<open>j\<close> is the position of the nearest user message before it.
\<close>

definition regenerateTarget :: "message list \<Rightarrow> string \<Rightarrow> nat \<Rightarrow> nat \<Rightarrow> bool" where
  "regenerateTarget h messageId i j =
     (i < length h \<and> msg_id (h ! i) = messageId \<and> (\<forall>k<i. msg_id (h ! k) \<noteq> messageId) \<and>
      msg_role (h ! i) = Model \<and>
      j < i \<and> msg_role (h ! j) = User \<and> (\<forall>k. j < k \<and> k < i \<longrightarrow> msg_role (h ! k) \<noteq> User))"

text \<open>
  The invariant of the re-entrancy guard: no call of \<^verbatim>\<open>sendMessage\<close> is suspended at its
  \<^verbatim>\<open>await\<close>, no two runs in flight belong to the same conversation, and the conversation
  of every run in flight is thinking.
\<close>

definition guarded :: "system \<Rightarrow> bool" where
  "guarded sys =
     (sending sys = [] \<and> distinct (map p_sessionId (inFlight sys)) \<and>
      (\<forall>p \<in> set (inFlight sys). loadingStates (sys_state sys) (p_sessionId p) \<noteq> None))"

section \<open>Example data\<close>

definition ex_m1 :: message where
  "ex_m1 = \<lparr>msg_id = ''m1'', msg_role = User,
            parts = [PdfAttachment ''a.pdf'' ''JVBERi0'', TextPart ''summarise''],
            msg_metadata = None\<rparr>"

definition ex_m2 :: message where
  "ex_m2 = \<lparr>msg_id = ''m2'', msg_role = Model,
            parts = [TextPart ''done'', PdfAttachment ''b.pdf'' ''JVBERi1''],
            msg_metadata = None\<rparr>"

definition ex_m3 :: message where
  "ex_m3 = \<lparr>msg_id = ''m3'', msg_role = User,
            parts = [PdfAttachment ''c.pdf'' ''JVBERi2''],
            msg_metadata = None\<rparr>"

definition ex_history :: "message list" where
  "ex_history = [ex_m1, ex_m2, ex_m3]"

definition ex_key1 :: api_key where
  "ex_key1 = Some ''AIza-primary-1111''"

definition ex_key2 :: api_key where
  "ex_key2 = Some ''AIza-backup-2222''"

definition ex_key3 :: api_key where
  "ex_key3 = Some ''AIza-spare-3333''"

text \<open>
  Three configured credentials and two fallback slots left empty. The model
  \<open>gemini-pro\<close> is limited to two calls a day and the primary credential has made them;
  \<open>gemini-ultra\<close> is limited to one call and every credential has made it;
  \<open>gemini-flash\<close> has no limit.
\<close>

definition ex_settings :: settings where
  "ex_settings =
     \<lparr>apiKey = ex_key1,
      fallbackApiKeys = Some [Some [], ex_key2, None, ex_key3],
      dailyLimits = Some [''gemini-pro'' \<mapsto> 2, ''gemini-ultra'' \<mapsto> 1],
      historyTokenLimit = 8192, temperature = 1, topP = 1\<rparr>"

definition ex_dailyUsage :: daily_usage where
  "ex_dailyUsage =
     \<lparr>usageByKey = Some
        [''key_1111'' \<mapsto> \<lparr>calls = Some [''gemini-pro'' \<mapsto> 2, ''gemini-ultra'' \<mapsto> 1]\<rparr>,
         ''key_2222'' \<mapsto> \<lparr>calls = Some [''gemini-ultra'' \<mapsto> 3]\<rparr>,
         ''key_3333'' \<mapsto> \<lparr>calls = Some [''gemini-pro'' \<mapsto> 1, ''gemini-ultra'' \<mapsto> 1]\<rparr>]\<rparr>"

definition ex_session :: session where
  "ex_session = \<lparr>sess_model = ''gemini-flash'', history = ex_history, systemPromptId = None\<rparr>"

definition ex_state :: state where
  "ex_state =
     \<lparr>sessions = [''s1'' \<mapsto> ex_session],
      loadingStates = Map.empty,
      activeSessionId = Some ''s1'',
      attachedFiles = [],
      settings = ex_settings,
      dailyUsage = ex_dailyUsage,
      currentRequestController = None,
      inputText = ''and now?'',
      storedTemplates = [],
      gatewayLog = [],
      ledger = []\<rparr>"

text \<open>The same state while a request of the conversation is in flight.\<close>

definition ex_thinking :: state where
  "ex_thinking =
     ex_state\<lparr>loadingStates := [''s1'' \<mapsto> \<lparr>status = ''thinking'', startTime = 1700000000000\<rparr>],
              currentRequestController := Some (AbortController False)\<rparr>"

text \<open>A backend that rejects every request with status 429.\<close>

definition ex_env_quota :: env where
  "ex_env_quota =
     \<lparr>fetch = (\<lambda>sent body. Inr \<lparr>resp_ok = False, resp_status = 429,
                                 data_message = Some ''Resource has been exhausted'',
                                 data_reply_text = [], data_usage = zeroUsage\<rparr>),
      dateNow = (\<lambda>sent. 1700000000000),
      newMessageId = (\<lambda>h. ''m4''),
      throws = (\<lambda>c. None)\<rparr>"

text \<open>A backend that rejects the primary credential for quota and fails on any other.\<close>

definition ex_env_fatal :: env where
  "ex_env_fatal =
     \<lparr>fetch = (\<lambda>sent body.
               if rq_apiKey body = ex_key1
               then Inr \<lparr>resp_ok = False, resp_status = 429,
                         data_message = Some ''Resource has been exhausted'',
                         data_reply_text = [], data_usage = zeroUsage\<rparr>
               else Inr \<lparr>resp_ok = False, resp_status = 500,
                         data_message = Some ''Internal error'',
                         data_reply_text = [], data_usage = zeroUsage\<rparr>),
      dateNow = (\<lambda>sent. 1700000000000),
      newMessageId = (\<lambda>h. ''m4''),
      throws = (\<lambda>c. None)\<rparr>"

text \<open>The errors the gateway raises for the two answers of that backend.\<close>

definition ex_error429 :: js_error where
  "ex_error429 = \<lparr>err_name = ''Error'', err_message = ''Resource has been exhausted'',
                   err_status = Some 429\<rparr>"

definition ex_error500 :: js_error where
  "ex_error500 = \<lparr>err_name = ''Error'', err_message = ''Internal error'',
                   err_status = Some 500\<rparr>"

definition ex_request :: "api_key \<Rightarrow> chat_request" where
  "ex_request key =
     \<lparr>rq_apiKey = key, rq_model = ''gemini-flash'', rq_history = [],
      rq_historyTokenLimit = 8192, rq_systemPrompt = ''be brief'',
      rq_temperature = 1, rq_topP = 1\<rparr>"

text \<open>A request the user cancels: \<^verbatim>\<open>fetch\<close> rejects with an \<^verbatim>\<open>AbortError\<close>.\<close>

definition ex_abort :: js_error where
  "ex_abort = \<lparr>err_name = ''AbortError'', err_message = ''The quota request was aborted.'',
               err_status = None\<rparr>"

definition ex_env_abort :: env where
  "ex_env_abort =
     \<lparr>fetch = (\<lambda>sent body. Inl ex_abort),
      dateNow = (\<lambda>sent. 1700000000000),
      newMessageId = (\<lambda>h. ''m4''),
      throws = (\<lambda>c. None)\<rparr>"



text \<open>A backend that serves every request.\<close>

definition ex_served :: http_response where
  "ex_served = \<lparr>resp_ok = True, resp_status = 200, data_message = None,
                 data_reply_text = ''Here is the summary.'',
                 data_usage = \<lparr>totalTokenCount = 42\<rparr>\<rparr>"

definition ex_env_ok :: env where
  "ex_env_ok =
     \<lparr>fetch = (\<lambda>sent body. Inr ex_served),
      dateNow = (\<lambda>sent. 1700000000000),
      newMessageId = (\<lambda>h. ''m4''),
      throws = (\<lambda>c. None)\<rparr>"

text \<open>
  The example state with another primary credential, which ends in the same four
  characters as the first one.
\<close>

definition ex_key4 :: string where
  "ex_key4 = ''AIza-another-1111''"

definition ex_state_key4 :: state where
  "ex_state_key4 = ex_state\<lparr>settings := ex_settings\<lparr>apiKey := Some ex_key4\<rparr>\<rparr>"


section \<open>Properties of the array helpers\<close>

lemma findLastIndex_bounds: "-1 \<le> findLastIndex P xs \<and> findLastIndex P xs < int (length xs)"
  by (induction xs) (auto simp: Let_def)

lemma findLastIndex_map: "findLastIndex P (map f xs) = findLastIndex (\<lambda>x. P (f x)) xs"
  by (induction xs) (auto simp: Let_def)

lemma findLastIndex_cong_roles:
  "map f xs = map f ys \<Longrightarrow> findLastIndex (\<lambda>x. P (f x)) xs = findLastIndex (\<lambda>x. P (f x)) ys"
  by (metis findLastIndex_map)

lemma findLastIndex_none: "(findLastIndex P xs = -1) = (\<forall>x \<in> set xs. \<not> P x)"
proof (induction xs)
  case Nil
  show ?case by simp
next
  case (Cons x xs)
  have b: "-1 \<le> findLastIndex P xs" using findLastIndex_bounds[of P xs] by simp
  show ?case using Cons b by (auto simp: Let_def)
qed

lemma findLastIndex_char:
  "(findLastIndex P xs = int i) =
     (i < length xs \<and> P (xs ! i) \<and> (\<forall>j. i < j \<and> j < length xs \<longrightarrow> \<not> P (xs ! j)))"
proof (induction xs arbitrary: i)
  case Nil
  show ?case by simp
next
  case (Cons x xs)
  have b: "-1 \<le> findLastIndex P xs" using findLastIndex_bounds[of P xs] by simp
  show ?case
  proof (cases "0 \<le> findLastIndex P xs")
    case True
    then obtain k where k: "findLastIndex P xs = int k"
      using nonneg_int_cases by blast
    with Cons[of k] have kk: "k < length xs" "P (xs ! k)"
      "\<forall>j. k < j \<and> j < length xs \<longrightarrow> \<not> P (xs ! j)" by auto
    show ?thesis
    proof (cases i)
      case 0
      have "findLastIndex P (x # xs) = int k + 1" using k by (simp add: Let_def)
      moreover have "\<not> (\<forall>j. 0 < j \<and> j < length (x # xs) \<longrightarrow> \<not> P ((x # xs) ! j))"
        using kk by (auto intro!: exI[of _ "Suc k"])
      ultimately show ?thesis using 0 by auto
    next
      case (Suc i')
      have "(findLastIndex P (x # xs) = int i) = (findLastIndex P xs = int i')"
        using True Suc by (simp add: Let_def)
      also have "\<dots> = (i' < length xs \<and> P (xs ! i') \<and>
                        (\<forall>j. i' < j \<and> j < length xs \<longrightarrow> \<not> P (xs ! j)))"
        by (rule Cons)
      also have "\<dots> = (i < length (x # xs) \<and> P ((x # xs) ! i) \<and>
                        (\<forall>j. i < j \<and> j < length (x # xs) \<longrightarrow> \<not> P ((x # xs) ! j)))"
        unfolding Suc
      proof -
        have "(\<forall>j. i' < j \<and> j < length xs \<longrightarrow> \<not> P (xs ! j)) =
              (\<forall>j. Suc i' < j \<and> j < length (x # xs) \<longrightarrow> \<not> P ((x # xs) ! j))"
        proof
          assume a: "\<forall>j. i' < j \<and> j < length xs \<longrightarrow> \<not> P (xs ! j)"
          show "\<forall>j. Suc i' < j \<and> j < length (x # xs) \<longrightarrow> \<not> P ((x # xs) ! j)"
          proof (intro allI impI)
            fix j assume "Suc i' < j \<and> j < length (x # xs)"
            then obtain j' where "j = Suc j'" "i' < j'" "j' < length xs"
              by (cases j) auto
            with a show "\<not> P ((x # xs) ! j)" by simp
          qed
        next
          assume a: "\<forall>j. Suc i' < j \<and> j < length (x # xs) \<longrightarrow> \<not> P ((x # xs) ! j)"
          show "\<forall>j. i' < j \<and> j < length xs \<longrightarrow> \<not> P (xs ! j)"
          proof (intro allI impI)
            fix j assume "i' < j \<and> j < length xs"
            with a[rule_format, of "Suc j"] show "\<not> P (xs ! j)" by simp
          qed
        qed
        then show "(i' < length xs \<and> P (xs ! i') \<and>
                    (\<forall>j. i' < j \<and> j < length xs \<longrightarrow> \<not> P (xs ! j))) =
                   (Suc i' < length (x # xs) \<and> P ((x # xs) ! Suc i') \<and>
                    (\<forall>j. Suc i' < j \<and> j < length (x # xs) \<longrightarrow> \<not> P ((x # xs) ! j)))"
          by simp
      qed
      finally show ?thesis .
    qed
  next
    case False
    with b have none: "findLastIndex P xs = -1" by simp
    then have nx: "\<forall>y \<in> set xs. \<not> P y" by (simp add: findLastIndex_none)
    show ?thesis
    proof (cases i)
      case 0
      have "(\<forall>j. 0 < j \<and> j < length (x # xs) \<longrightarrow> \<not> P ((x # xs) ! j))"
      proof (intro allI impI)
        fix j assume "0 < j \<and> j < length (x # xs)"
        then obtain j' where "j = Suc j'" "j' < length xs" by (cases j) auto
        with nx show "\<not> P ((x # xs) ! j)" by simp
      qed
      then show ?thesis using 0 none by (simp add: Let_def)
    next
      case (Suc i')
      have "findLastIndex P (x # xs) \<le> 0" using none by (simp add: Let_def)
      then have "findLastIndex P (x # xs) \<noteq> int i" using Suc by simp
      moreover have "i' < length xs \<Longrightarrow> \<not> P (xs ! i')" using nx by simp
      ultimately show ?thesis using Suc by auto
    qed
  qed
qed

lemma findIndex_bounds: "-1 \<le> findIndex P xs \<and> findIndex P xs < int (length xs)"
  by (induction xs) (auto simp: Let_def)

lemma findIndex_none: "(findIndex P xs = -1) = (\<forall>x \<in> set xs. \<not> P x)"
proof (induction xs)
  case Nil
  show ?case by simp
next
  case (Cons x xs)
  have b: "-1 \<le> findIndex P xs" using findIndex_bounds[of P xs] by simp
  show ?case using Cons b by (auto simp: Let_def)
qed

lemma findIndex_char:
  "(findIndex P xs = int i) = (i < length xs \<and> P (xs ! i) \<and> (\<forall>k<i. \<not> P (xs ! k)))"
proof (induction xs arbitrary: i)
  case Nil
  show ?case by simp
next
  case (Cons x xs)
  show ?case
  proof (cases "P x")
    case True
    have "(\<forall>k<i. \<not> P ((x # xs) ! k)) = (i = 0)"
    proof
      assume a: "\<forall>k<i. \<not> P ((x # xs) ! k)"
      show "i = 0"
      proof (rule ccontr)
        assume "i \<noteq> 0"
        then have "0 < i" by simp
        with a have "\<not> P ((x # xs) ! 0)" by blast
        with True show False by simp
      qed
    next
      assume "i = 0"
      then show "\<forall>k<i. \<not> P ((x # xs) ! k)" by simp
    qed
    with True show ?thesis by auto
  next
    case False
    have b: "-1 \<le> findIndex P xs" using findIndex_bounds[of P xs] by simp
    show ?thesis
    proof (cases i)
      case 0
      have "findIndex P (x # xs) \<noteq> 0" using False b by (simp add: Let_def)
      with 0 False show ?thesis by simp
    next
      case (Suc i')
      have "(findIndex P (x # xs) = int i) = (findIndex P xs = int i')"
        using False Suc b by (auto simp: Let_def)
      also have "\<dots> = (i' < length xs \<and> P (xs ! i') \<and> (\<forall>k<i'. \<not> P (xs ! k)))"
        by (rule Cons)
      also have "(\<forall>k<i'. \<not> P (xs ! k)) = (\<forall>k<Suc i'. \<not> P ((x # xs) ! k))"
      proof
        assume a: "\<forall>k<i'. \<not> P (xs ! k)"
        show "\<forall>k<Suc i'. \<not> P ((x # xs) ! k)"
        proof (intro allI impI)
          fix k assume "k < Suc i'"
          then show "\<not> P ((x # xs) ! k)" using a False by (cases k) auto
        qed
      next
        assume a: "\<forall>k<Suc i'. \<not> P ((x # xs) ! k)"
        show "\<forall>k<i'. \<not> P (xs ! k)"
        proof (intro allI impI)
          fix k assume "k < i'"
          with a[rule_format, of "Suc k"] show "\<not> P (xs ! k)" by simp
        qed
      qed
      finally show ?thesis using Suc by simp
    qed
  qed
qed

section \<open>Facts about the example data\<close>

lemmas ex_history_defs = ex_history_def ex_m1_def ex_m2_def ex_m3_def

lemmas ex_state_defs = ex_state_def ex_settings_def ex_dailyUsage_def ex_session_def
  ex_key1_def ex_key2_def ex_key3_def

lemmas selection_defs = usableKeys_def allKeys_def configuredKeys_def usableKey_def
  modelLimit_def usageOf_def truthy_def getApiKeyIdentifier_def slice_last_def

lemmas toLowerCase_defs = toLowerCase_def toLowerCase_char_def upperLetters_def lowerLetters_def

lemma ex_usable_pro: "usableKeys ex_state ''gemini-pro'' = [ex_key2, ex_key3]"
  by (simp add: ex_state_defs selection_defs)

lemma ex_usable_flash: "usableKeys ex_state ''gemini-flash'' = [ex_key1, ex_key2, ex_key3]"
  by (simp add: ex_state_defs selection_defs)

lemma ex_usable_ultra: "usableKeys ex_state ''gemini-ultra'' = []"
  by (simp add: ex_state_defs selection_defs)

lemma ex_sessions: "sessions ex_state ''s1'' = Some ex_session" "loadingStates ex_state ''s1'' = None"
  "history ex_session = ex_history"
  by (simp_all add: ex_state_def ex_session_def)

lemma ex_thinking_sessions: "sessions ex_thinking ''s1'' = Some ex_session"
  "loadingStates ex_thinking ''s1'' = Some \<lparr>status = ''thinking'', startTime = 1700000000000\<rparr>"
  "activeSessionId ex_thinking = Some ''s1''"
  by (simp_all add: ex_thinking_def ex_state_def)

lemma ex_keys_distinct: "ex_key2 \<noteq> ex_key1" "ex_key3 \<noteq> ex_key1"
  by (simp_all add: ex_key1_def ex_key2_def ex_key3_def)

lemma ex_request_update: "ex_request k0\<lparr>rq_apiKey := key\<rparr> = ex_request key"
  by (simp add: ex_request_def)

lemma ex_error429_class: "\<not> isAbortError ex_error429" "isQuotaError ex_error429"
  by (simp_all add: ex_error429_def isAbortError_def isQuotaError_def)

lemma ex_error500_class: "\<not> isAbortError ex_error500" "\<not> isQuotaError ex_error500"
  by (simp_all add: ex_error500_def isAbortError_def isQuotaError_def toLowerCase_defs)

lemma ex_abort_class: "isAbortError ex_abort" "isQuotaError ex_abort"
  by (simp_all add: ex_abort_def isAbortError_def isQuotaError_def toLowerCase_defs)

lemma ex_quota_error:
  "apiCall ex_env_quota sent body =
     Inl \<lparr>err_name = ''Error'', err_message = ''Resource has been exhausted'',
          err_status = Some 429\<rparr>"
  by (simp add: apiCall_def ex_env_quota_def)

lemma ex_fatal_apiCall:
  "apiCall ex_env_fatal sent (ex_request key) =
     (if key = ex_key1 then Inl ex_error429 else Inl ex_error500)"
  by (simp add: apiCall_def ex_env_fatal_def ex_request_def ex_error429_def ex_error500_def)

lemma ex_abort_apiCall: "apiCall ex_env_abort sent body = Inl ex_abort"
  by (simp add: apiCall_def ex_env_abort_def)

lemma ex_target_m2: "regenerateTarget ex_history ''m2'' 1 0"
  by (auto simp: regenerateTarget_def ex_history_def ex_m1_def ex_m2_def ex_m3_def)

lemma ex_no_target_m3: "\<not> regenerateTarget ex_history ''m3'' i j"
proof
  assume t: "regenerateTarget ex_history ''m3'' i j"
  then have "i < length ex_history \<and> msg_id (ex_history ! i) = ''m3'' \<and>
             msg_role (ex_history ! i) = Model"
    unfolding regenerateTarget_def by blast
  moreover have "length ex_history = 3" by (simp add: ex_history_def)
  ultimately have i: "i < 3" "msg_id (ex_history ! i) = ''m3''" "msg_role (ex_history ! i) = Model"
    by simp_all
  from i(1) consider "i = 0" | "i = 1" | "i = 2" by linarith
  then show False
  proof cases
    case 1
    with i(2) show False by (simp add: ex_history_def ex_m1_def)
  next
    case 2
    with i(2) show False by (simp add: ex_history_def ex_m2_def)
  next
    case 3
    with i(3) show False by (simp add: ex_history_def ex_m3_def)
  qed
qed

section \<open>Properties of history shaping\<close>

lemma length_filterHistoryForApi [simp]:
  "length (filterHistoryForApi h) = length h"
  by (simp add: filterHistoryForApi_def Let_def)

lemma nth_filterHistoryForApi:
  "i < length h \<Longrightarrow>
   filterHistoryForApi h ! i =
     filterMessage (findLastIndex (\<lambda>m. msg_role m = User) h) i (h ! i)"
  by (simp add: filterHistoryForApi_def Let_def)

lemma msg_role_filterMessage [simp]: "msg_role (filterMessage l i m) = msg_role m"
  by (simp add: filterMessage_def)

lemma roles_filterHistoryForApi:
  "map msg_role (filterHistoryForApi h) = map msg_role h"
  by (rule nth_equalityI) (simp_all add: nth_filterHistoryForApi)

lemma filterMessage_idem: "filterMessage l i (filterMessage l i m) = filterMessage l i m"
  by (simp add: filterMessage_def)

lemma lastUser_filterHistoryForApi:
  "findLastIndex (\<lambda>m. msg_role m = User) (filterHistoryForApi h) =
   findLastIndex (\<lambda>m. msg_role m = User) h"
  by (rule findLastIndex_cong_roles[where f = msg_role and P = "\<lambda>r. r = User"])
     (rule roles_filterHistoryForApi)

text \<open>
  C9. Shaping the outgoing history is idempotent: shaping a shaped history gives the
  shaped history again.
\<close>

theorem filterHistoryForApi_idempotent:
  "filterHistoryForApi (filterHistoryForApi h) = filterHistoryForApi h"
proof (rule nth_equalityI)
  show "length (filterHistoryForApi (filterHistoryForApi h)) = length (filterHistoryForApi h)"
    by simp
next
  fix i assume "i < length (filterHistoryForApi (filterHistoryForApi h))"
  then have i: "i < length h" by simp
  then show "filterHistoryForApi (filterHistoryForApi h) ! i = filterHistoryForApi h ! i"
    by (simp add: nth_filterHistoryForApi lastUser_filterHistoryForApi filterMessage_idem)
qed

text \<open>
  C5, as the code has it. Shaping keeps the length of the history. A user message that is
  followed by a later user message loses every part that is neither text nor image; every
  other message (the most recent user message, and every model or system message) is
  returned as it is.
\<close>

theorem filterHistoryForApi_strips_earlier_user_messages:
  "i < length h \<Longrightarrow>
     length (filterHistoryForApi h) = length h \<and>
     (if msg_role (h ! i) = User \<and> (\<exists>j. i < j \<and> j < length h \<and> msg_role (h ! j) = User)
      then filterHistoryForApi h ! i = (h ! i)\<lparr>parts := filter isTextOrImage (parts (h ! i))\<rparr>
      else filterHistoryForApi h ! i = h ! i)"
proof -
  assume i: "i < length h"
  let ?l = "findLastIndex (\<lambda>m. msg_role m = User) h"
  have char: "(?l = int i) =
      (msg_role (h ! i) = User \<and> (\<forall>j. i < j \<and> j < length h \<longrightarrow> msg_role (h ! j) \<noteq> User))"
    using i by (simp add: findLastIndex_char)
  show ?thesis
  proof (cases "msg_role (h ! i) = User \<and> (\<exists>j. i < j \<and> j < length h \<and> msg_role (h ! j) = User)")
    case True
    then have "?l \<noteq> int i" using char by blast
    with True i show ?thesis by (simp add: nth_filterHistoryForApi filterMessage_def)
  next
    case False
    then have "msg_role (h ! i) \<noteq> User \<or> ?l = int i" using char by blast
    with False i show ?thesis by (auto simp add: nth_filterHistoryForApi filterMessage_def)
  qed
qed

text \<open>
  On the example history the first user message loses its PDF, the model message and the
  last user message are returned unchanged.
\<close>

theorem filterHistoryForApi_strips_earlier_user_messages_witness:
  "filterHistoryForApi ex_history ! 0 = ex_m1\<lparr>parts := [TextPart ''summarise'']\<rparr> \<and>
   filterHistoryForApi ex_history ! 1 = ex_m2 \<and>
   filterHistoryForApi ex_history ! 2 = ex_m3"
proof -
  have l: "0 < length ex_history" "1 < length ex_history" "2 < length ex_history"
    by (simp_all add: ex_history_def)
  have c0: "msg_role (ex_history ! 0) = User \<and>
            (\<exists>j. 0 < j \<and> j < length ex_history \<and> msg_role (ex_history ! j) = User)"
    by (rule conjI, simp add: ex_history_defs, rule exI[of _ 2], simp add: ex_history_defs)
  have c1: "\<not> (msg_role (ex_history ! 1) = User \<and>
            (\<exists>j. 1 < j \<and> j < length ex_history \<and> msg_role (ex_history ! j) = User))"
    by (simp add: ex_history_defs)
  have c2: "\<not> (msg_role (ex_history ! 2) = User \<and>
            (\<exists>j. 2 < j \<and> j < length ex_history \<and> msg_role (ex_history ! j) = User))"
    by (simp add: ex_history_defs)
  have a: "filterHistoryForApi ex_history ! 0 =
           (ex_history ! 0)\<lparr>parts := filter isTextOrImage (parts (ex_history ! 0))\<rparr>"
    using filterHistoryForApi_strips_earlier_user_messages[OF l(1)] c0 by (auto split: if_splits)
  have b: "filterHistoryForApi ex_history ! 1 = ex_history ! 1"
    using filterHistoryForApi_strips_earlier_user_messages[OF l(2)] c1 by (auto split: if_splits)
  have c: "filterHistoryForApi ex_history ! 2 = ex_history ! 2"
    using filterHistoryForApi_strips_earlier_user_messages[OF l(3)] c2 by (auto split: if_splits)
  show ?thesis unfolding a b c
    by (simp add: ex_history_defs isTextOrImage_def)
qed

text \<open>
  C5 as stated fails: the model message of the example history is not the most recent
  user message (that one is at index 2), and it keeps its PDF attachment.
\<close>

theorem filterHistoryForApi_keeps_model_attachment:
  "filterHistoryForApi ex_history ! 1 =
     \<lparr>msg_id = ''m2'', msg_role = Model,
      parts = [TextPart ''done'', PdfAttachment ''b.pdf'' ''JVBERi1''],
      msg_metadata = None\<rparr> \<and>
   part_type (PdfAttachment ''b.pdf'' ''JVBERi1'') = ''pdf-attachment'' \<and>
   findLastIndex (\<lambda>m. msg_role m = User) ex_history = 2"
  by (simp add: ex_history_defs filterHistoryForApi_def filterMessage_def Let_def)

section \<open>Properties of credential selection\<close>

text \<open>
  C3. The usable credentials are the configured ones (the primary credential, then the
  fallbacks), in that order, that are non-empty and whose recorded usage for the model is
  strictly below the limit of the model; when the limit is 0 or absent they are all the
  non-empty ones.
\<close>

theorem usableKeys_selection:
  "usableKeys s model =
     filter (\<lambda>key. truthy key \<and>
                   (modelLimit s model = 0 \<or>
                    usageOf s (getApiKeyIdentifier key) model < modelLimit s model))
            (configuredKeys s) \<and>
   subseq (usableKeys s model) (configuredKeys s) \<and>
   configuredKeys s =
     apiKey (settings s) # (case fallbackApiKeys (settings s) of None \<Rightarrow> [] | Some ks \<Rightarrow> ks) \<and>
   (modelLimit s model = 0 \<longrightarrow> usableKeys s model = filter truthy (configuredKeys s)) \<and>
   (modelLimit s model = 0) =
     (case dailyLimits (settings s) of
        None \<Rightarrow> True
      | Some limits \<Rightarrow> limits model = None \<or> limits model = Some 0)"
proof -
  have eq: "usableKey s model = (\<lambda>key. modelLimit s model = 0 \<or>
              usageOf s (getApiKeyIdentifier key) model < modelLimit s model)"
    by (auto simp: usableKey_def fun_eq_iff)
  have 1: "usableKeys s model =
     filter (\<lambda>key. truthy key \<and>
                   (modelLimit s model = 0 \<or>
                    usageOf s (getApiKeyIdentifier key) model < modelLimit s model))
            (configuredKeys s)"
    unfolding usableKeys_def allKeys_def eq by (simp add: conj_commute)
  have 2: "subseq (usableKeys s model) (configuredKeys s)"
    unfolding 1 by simp
  have 3: "modelLimit s model = 0 \<longrightarrow> usableKeys s model = filter truthy (configuredKeys s)"
    unfolding 1 by simp
  have 4: "(modelLimit s model = 0) =
     (case dailyLimits (settings s) of
        None \<Rightarrow> True
      | Some limits \<Rightarrow> limits model = None \<or> limits model = Some 0)"
    by (simp add: modelLimit_def split: option.splits)
  show ?thesis using 1 2 3 4 by (simp add: configuredKeys_def)
qed

text \<open>
  The example state: no limit for \<open>gemini-flash\<close>, so every non-empty credential is
  usable; for \<open>gemini-pro\<close> the primary credential has reached the limit of 2.
\<close>

theorem usableKeys_selection_witness:
  "modelLimit ex_state ''gemini-flash'' = 0 \<and>
   usableKeys ex_state ''gemini-flash'' = [ex_key1, ex_key2, ex_key3] \<and>
   modelLimit ex_state ''gemini-pro'' = 2 \<and>
   usableKeys ex_state ''gemini-pro'' = [ex_key2, ex_key3]"
proof -
  have l: "modelLimit ex_state ''gemini-flash'' = 0" "modelLimit ex_state ''gemini-pro'' = 2"
    by (simp_all add: ex_state_defs modelLimit_def)
  have c: "configuredKeys ex_state = [ex_key1, Some [], ex_key2, None, ex_key3]"
    by (simp add: ex_state_defs configuredKeys_def)
  have u: "usageOf ex_state (getApiKeyIdentifier ex_key1) ''gemini-pro'' = 2"
     "usageOf ex_state (getApiKeyIdentifier ex_key2) ''gemini-pro'' = 0"
     "usageOf ex_state (getApiKeyIdentifier ex_key3) ''gemini-pro'' = 1"
    by (simp_all add: ex_state_defs usageOf_def getApiKeyIdentifier_def slice_last_def)
  have t: "truthy ex_key1" "truthy ex_key2" "truthy ex_key3" "\<not> truthy (Some [])" "\<not> truthy None"
    by (simp_all add: truthy_def ex_state_defs)
  from usableKeys_selection[of ex_state "''gemini-flash''"] l(1) c t
  have a: "usableKeys ex_state ''gemini-flash'' = [ex_key1, ex_key2, ex_key3]" by simp
  from usableKeys_selection[of ex_state "''gemini-pro''"] l(2) c t u
  have b: "usableKeys ex_state ''gemini-pro'' = [ex_key2, ex_key3]" by simp
  show ?thesis using a b l by simp
qed

section \<open>Properties of the credential loop\<close>

lemma tryKeys_quota_step:
  assumes "apiCall env (gatewayLog s) (body\<lparr>rq_apiKey := key\<rparr>) = Inl e"
    and "\<not> isAbortError e" and "isQuotaError e"
  shows "tryKeys env sid body (key # rest) s =
         tryKeys env sid body rest
           (s\<lparr>gatewayLog := gatewayLog s @ [body\<lparr>rq_apiKey := key\<rparr>],
              ledger := ledger s @ [quotaRejection sid (rq_model body) key]\<rparr>)"
  using assms by (simp add: chat_def recordApiUsage_def quotaRejection_def)

lemma tryKeys_fatal_step:
  assumes "apiCall env (gatewayLog s) (body\<lparr>rq_apiKey := key\<rparr>) = Inl e"
    and "isAbortError e \<or> \<not> isQuotaError e"
  shows "tryKeys env sid body (key # rest) s =
         (Inl e, s\<lparr>gatewayLog := gatewayLog s @ [body\<lparr>rq_apiKey := key\<rparr>]\<rparr>)"
  using assms by (auto simp add: chat_def)

lemma tryKeys_success_step:
  assumes "apiCall env (gatewayLog s) (body\<lparr>rq_apiKey := key\<rparr>) = Inr response"
  shows "tryKeys env sid body (key # rest) s =
         (Inr (Some \<lparr>reply_text = data_reply_text response, resp_usage = data_usage response,
                     usedApiKey = key\<rparr>),
          s\<lparr>gatewayLog := gatewayLog s @ [body\<lparr>rq_apiKey := key\<rparr>]\<rparr>)"
  using assms by (simp add: chat_def)

lemma tryKeys_frame:
  "\<exists>n m. n \<le> length keys \<and> m \<le> n \<and>
     snd (tryKeys env sid body keys s) =
       s\<lparr>gatewayLog := gatewayLog s @ map (\<lambda>k. body\<lparr>rq_apiKey := k\<rparr>) (take n keys),
         ledger := ledger s @ map (quotaRejection sid (rq_model body)) (take m keys)\<rparr>"
proof (induction keys arbitrary: s)
  case Nil
  show ?case by simp
next
  case (Cons key rest)
  let ?b = "body\<lparr>rq_apiKey := key\<rparr>"
  show ?case
  proof (cases "apiCall env (gatewayLog s) ?b")
    case (Inr response)
    have "snd (tryKeys env sid body (key # rest) s) =
          s\<lparr>gatewayLog := gatewayLog s @ map (\<lambda>k. body\<lparr>rq_apiKey := k\<rparr>) (take 1 (key # rest)),
            ledger := ledger s @ map (quotaRejection sid (rq_model body)) (take 0 (key # rest))\<rparr>"
      by (simp add: tryKeys_success_step[OF Inr] del: tryKeys.simps)
    then show ?thesis
      by (intro exI[of _ 1] exI[of _ 0]) simp
  next
    case (Inl e)
    show ?thesis
    proof (cases "isAbortError e \<or> \<not> isQuotaError e")
      case True
      have "snd (tryKeys env sid body (key # rest) s) =
          s\<lparr>gatewayLog := gatewayLog s @ map (\<lambda>k. body\<lparr>rq_apiKey := k\<rparr>) (take 1 (key # rest)),
            ledger := ledger s @ map (quotaRejection sid (rq_model body)) (take 0 (key # rest))\<rparr>"
        by (simp add: tryKeys_fatal_step[OF Inl True] del: tryKeys.simps)
      then show ?thesis
        by (intro exI[of _ 1] exI[of _ 0]) simp
    next
      case False
      then have q: "\<not> isAbortError e" "isQuotaError e" by auto
      let ?s1 = "s\<lparr>gatewayLog := gatewayLog s @ [?b],
                    ledger := ledger s @ [quotaRejection sid (rq_model body) key]\<rparr>"
      from Cons[of ?s1] obtain n m where nm: "n \<le> length rest" "m \<le> n"
        "snd (tryKeys env sid body rest ?s1) =
           ?s1\<lparr>gatewayLog := gatewayLog ?s1 @ map (\<lambda>k. body\<lparr>rq_apiKey := k\<rparr>) (take n rest),
               ledger := ledger ?s1 @ map (quotaRejection sid (rq_model body)) (take m rest)\<rparr>"
        by blast
      have "snd (tryKeys env sid body (key # rest) s) =
          s\<lparr>gatewayLog := gatewayLog s @ map (\<lambda>k. body\<lparr>rq_apiKey := k\<rparr>) (take (Suc n) (key # rest)),
            ledger := ledger s @ map (quotaRejection sid (rq_model body)) (take (Suc m) (key # rest))\<rparr>"
        using nm(3) by (simp add: tryKeys_quota_step[OF Inl q] del: tryKeys.simps)
      then show ?thesis using nm(1,2)
        by (intro exI[of _ "Suc n"] exI[of _ "Suc m"]) simp
    qed
  qed
qed

lemma tryKeys_log_extends:
  "tryKeys env sid body keys s = (r, s') \<Longrightarrow>
   \<exists>cs es. s' = s\<lparr>gatewayLog := gatewayLog s @ cs, ledger := ledger s @ es\<rparr>"
  using tryKeys_frame[of keys env sid body s] by auto

lemma tryKeys_all_quota:
  assumes "\<forall>n < length keys. \<exists>e.
             apiCall env (gatewayLog s @ map (\<lambda>k. body\<lparr>rq_apiKey := k\<rparr>) (take n keys))
               (body\<lparr>rq_apiKey := keys ! n\<rparr>) = Inl e \<and>
             \<not> isAbortError e \<and> isQuotaError e"
  shows "tryKeys env sid body keys s =
         (Inr None,
          s\<lparr>gatewayLog := gatewayLog s @ map (\<lambda>k. body\<lparr>rq_apiKey := k\<rparr>) keys,
            ledger := ledger s @ map (quotaRejection sid (rq_model body)) keys\<rparr>)"
  using assms
proof (induction keys arbitrary: s)
  case Nil
  show ?case by simp
next
  case (Cons key rest)
  let ?b = "\<lambda>k. body\<lparr>rq_apiKey := k\<rparr>"
  let ?s1 = "s\<lparr>gatewayLog := gatewayLog s @ [?b key],
                ledger := ledger s @ [quotaRejection sid (rq_model body) key]\<rparr>"
  from Cons.prems[rule_format, of 0]
  obtain e where e: "apiCall env (gatewayLog s) (?b key) = Inl e"
    "\<not> isAbortError e" "isQuotaError e" by auto
  have rest: "\<forall>n < length rest. \<exists>e.
             apiCall env (gatewayLog ?s1 @ map ?b (take n rest)) (?b (rest ! n)) = Inl e \<and>
             \<not> isAbortError e \<and> isQuotaError e"
  proof (intro allI impI)
    fix n assume "n < length rest"
    then have "Suc n < length (key # rest)" by simp
    from Cons.prems[rule_format, OF this]
    show "\<exists>e. apiCall env (gatewayLog ?s1 @ map ?b (take n rest)) (?b (rest ! n)) = Inl e \<and>
             \<not> isAbortError e \<and> isQuotaError e" by simp
  qed
  show ?case
    by (simp add: tryKeys_quota_step[OF e] Cons.IH[OF rest] del: tryKeys.simps)
qed

lemma tryKeys_fail_fast:
  assumes "tryKeys env sid body keys s = (r, s')"
    and "gatewayLog s' = gatewayLog s @ cs"
    and "i < length cs"
    and "apiCall env (gatewayLog s @ take i cs) (cs ! i) = Inl e"
    and "isAbortError e \<or> \<not> isQuotaError e"
  shows "r = Inl e \<and> length cs = Suc i \<and>
         cs = map (\<lambda>k. body\<lparr>rq_apiKey := k\<rparr>) (take (Suc i) keys) \<and>
         ledger s' = ledger s @ map (quotaRejection sid (rq_model body)) (take i keys)"
  using assms
proof (induction keys arbitrary: s cs i)
  case Nil
  then show ?case by simp
next
  case (Cons key rest)
  let ?b = "body\<lparr>rq_apiKey := key\<rparr>"
  show ?case
  proof (cases "apiCall env (gatewayLog s) ?b")
    case (Inr response)
    from Cons.prems(1) have s': "s' = s\<lparr>gatewayLog := gatewayLog s @ [?b]\<rparr>"
      by (simp add: tryKeys_success_step[OF Inr] del: tryKeys.simps)
    with Cons.prems(2) have cs: "cs = [?b]" by simp
    with Cons.prems(3) have "i = 0" by simp
    with Cons.prems(4) cs Inr show ?thesis by simp
  next
    case (Inl e0)
    show ?thesis
    proof (cases "isAbortError e0 \<or> \<not> isQuotaError e0")
      case True
      from Cons.prems(1) have r: "r = Inl e0" and s': "s' = s\<lparr>gatewayLog := gatewayLog s @ [?b]\<rparr>"
        by (simp_all add: tryKeys_fatal_step[OF Inl True] del: tryKeys.simps)
      from s' Cons.prems(2) have cs: "cs = [?b]" by simp
      with Cons.prems(3) have i: "i = 0" by simp
      with Cons.prems(4) cs Inl have "e = e0" by simp
      with r s' cs i show ?thesis by simp
    next
      case False
      then have q: "\<not> isAbortError e0" "isQuotaError e0" by auto
      let ?s1 = "s\<lparr>gatewayLog := gatewayLog s @ [?b],
                    ledger := ledger s @ [quotaRejection sid (rq_model body) key]\<rparr>"
      from Cons.prems(1) have run: "tryKeys env sid body rest ?s1 = (r, s')"
        by (simp add: tryKeys_quota_step[OF Inl q] del: tryKeys.simps)
      from tryKeys_frame[of rest env sid body ?s1] run
      obtain cs' where cs': "gatewayLog s' = gatewayLog ?s1 @ cs'" by auto
      with Cons.prems(2) have cs: "cs = ?b # cs'" by simp
      show ?thesis
      proof (cases i)
        case 0
        with Cons.prems(4) cs Inl have "e = e0" by simp
        with Cons.prems(5) q show ?thesis by simp
      next
        case (Suc j)
        from Cons.prems(3) cs Suc have j: "j < length cs'" by simp
        from Cons.prems(4) cs Suc
        have call: "apiCall env (gatewayLog ?s1 @ take j cs') (cs' ! j) = Inl e" by simp
        from Cons.IH[OF run cs' j call Cons.prems(5)]
        have ih: "r = Inl e" "length cs' = Suc j"
          "cs' = map (\<lambda>k. body\<lparr>rq_apiKey := k\<rparr>) (take (Suc j) rest)"
          "ledger s' = ledger ?s1 @ map (quotaRejection sid (rq_model body)) (take j rest)"
          by blast+
        have "length cs = Suc i" using cs Suc ih(2) by simp
        moreover have "cs = map (\<lambda>k. body\<lparr>rq_apiKey := k\<rparr>) (take (Suc i) (key # rest))"
          using cs Suc ih(3) by simp
        moreover have "ledger s' = ledger s @
            map (quotaRejection sid (rq_model body)) (take i (key # rest))"
          using Suc ih(4) by simp
        ultimately show ?thesis using ih(1) by simp
      qed
    qed
  qed
qed

lemma callChatApi_frame:
  "callChatApi env sid model hist tokenLimit systemPrompt temp tp s = (r, s') \<Longrightarrow>
   \<exists>cs es. s' = s\<lparr>gatewayLog := gatewayLog s @ cs, ledger := ledger s @ es\<rparr>"
proof -
  assume run: "callChatApi env sid model hist tokenLimit systemPrompt temp tp s = (r, s')"
  let ?body = "\<lparr>rq_apiKey = None, rq_model = model, rq_history = hist,
                 rq_historyTokenLimit = tokenLimit, rq_systemPrompt = systemPrompt,
                 rq_temperature = temp, rq_topP = tp\<rparr>"
  show ?thesis
  proof (cases "usableKeys s model = []")
    case True
    with run have "s' = s" by (simp add: callChatApi_def)
    then have "s' = s\<lparr>gatewayLog := gatewayLog s @ [], ledger := ledger s @ []\<rparr>" by simp
    then show ?thesis by blast
  next
    case False
    obtain r0 s0 where t: "tryKeys env sid ?body (usableKeys s model) s = (r0, s0)"
      by (cases "tryKeys env sid ?body (usableKeys s model) s")
    with run False have "s' = s0"
      by (auto simp: callChatApi_def split: sum.splits option.splits)
    with tryKeys_log_extends[OF t] show ?thesis by simp
  qed
qed


section \<open>Properties of the request orchestrator\<close>

lemma str_includes_sublist: "str_includes h n = sublist n h"
  by (induction h) (auto simp: sublist_Cons_right)

lemma dailyLimitMessage_names_model: "str_includes (dailyLimitMessage model) model"
  unfolding str_includes_sublist dailyLimitMessage_def
  by (rule sublist_appendI)

lemma depleted_not_dailyLimit: "allKeysDepletedMessage \<noteq> dailyLimitMessage m"
  by (simp add: dailyLimitMessage_def dailyLimitPrefix_def allKeysDepletedMessage_def)

text \<open>
  C4. When no credential is usable, \<^verbatim>\<open>callChatApi\<close> fails at once with the daily-limit
  error, whose message contains the name of the model, and leaves the state as it was: no
  request is sent to the backend and no ledger entry is recorded.
\<close>

theorem callChatApi_no_usable_key:
  assumes "usableKeys s model = []"
  shows "callChatApi env sessionId model hist tokenLimit systemPrompt temp tp s =
           (Inl (Error (dailyLimitMessage model)), s) \<and>
         str_includes (err_message (Error (dailyLimitMessage model))) model \<and>
         requestsOfRun s (snd (callChatApi env sessionId model hist tokenLimit systemPrompt temp tp s)) = [] \<and>
         entriesOfRun s (snd (callChatApi env sessionId model hist tokenLimit systemPrompt temp tp s)) = []"
  using assms
  by (simp add: callChatApi_def Error_def dailyLimitMessage_names_model
        requestsOfRun_def entriesOfRun_def)

theorem callChatApi_no_usable_key_witness:
  "usableKeys ex_state ''gemini-ultra'' = [] \<and>
   callChatApi ex_env_quota ''s1'' ''gemini-ultra'' ex_history 8192 LATEX_FORMATTING_RULE 1 1 ex_state =
     (Inl (Error (dailyLimitMessage ''gemini-ultra'')), ex_state)"
  using callChatApi_no_usable_key[OF ex_usable_ultra, of ex_env_quota "''s1''" ex_history 8192
          LATEX_FORMATTING_RULE 1 1] ex_usable_ultra
  by simp

text \<open>
  C1. When at least one credential is usable and the backend answers the request for
  every usable credential (sent after the requests for the credentials before it) with a
  quota error, \<^verbatim>\<open>callChatApi\<close> sends one request per usable
  credential, in their order, records one zero-usage quota rejection per credential, in
  the same order, and fails with the all-keys-depleted error, which differs from the
  daily-limit error raised when no credential is usable.
\<close>

theorem callChatApi_all_quota:
  assumes "usableKeys s model \<noteq> []"
    and "\<forall>n < length (usableKeys s model). \<exists>e.
           apiCall env
             (gatewayLog s @
              map (requestOf model hist tokenLimit systemPrompt temp tp)
                (take n (usableKeys s model)))
             (requestOf model hist tokenLimit systemPrompt temp tp (usableKeys s model ! n)) =
             Inl e \<and>
           \<not> isAbortError e \<and> isQuotaError e"
  shows "callChatApi env sessionId model hist tokenLimit systemPrompt temp tp s =
           (Inl (Error allKeysDepletedMessage),
            s\<lparr>gatewayLog := gatewayLog s @
                 map (requestOf model hist tokenLimit systemPrompt temp tp) (usableKeys s model),
              ledger := ledger s @ map (quotaRejection sessionId model) (usableKeys s model)\<rparr>) \<and>
         Error allKeysDepletedMessage \<noteq> Error (dailyLimitMessage m)"
proof -
  let ?body = "\<lparr>rq_apiKey = None, rq_model = model, rq_history = hist,
                 rq_historyTokenLimit = tokenLimit, rq_systemPrompt = systemPrompt,
                 rq_temperature = temp, rq_topP = tp\<rparr>"
  have b: "(\<lambda>k. ?body\<lparr>rq_apiKey := k\<rparr>) = requestOf model hist tokenLimit systemPrompt temp tp"
    by (simp add: requestOf_def fun_eq_iff)
  have q: "\<forall>n < length (usableKeys s model). \<exists>e.
             apiCall env (gatewayLog s @ map (\<lambda>k. ?body\<lparr>rq_apiKey := k\<rparr>)
                 (take n (usableKeys s model)))
               (?body\<lparr>rq_apiKey := usableKeys s model ! n\<rparr>) = Inl e \<and>
             \<not> isAbortError e \<and> isQuotaError e"
    using assms(2) unfolding b[symmetric] by simp
  have "tryKeys env sessionId ?body (usableKeys s model) s =
         (Inr None,
          s\<lparr>gatewayLog := gatewayLog s @ map (\<lambda>k. ?body\<lparr>rq_apiKey := k\<rparr>) (usableKeys s model),
            ledger := ledger s @ map (quotaRejection sessionId (rq_model ?body)) (usableKeys s model)\<rparr>)"
    by (rule tryKeys_all_quota[OF q])
  then have "callChatApi env sessionId model hist tokenLimit systemPrompt temp tp s =
           (Inl (Error allKeysDepletedMessage),
            s\<lparr>gatewayLog := gatewayLog s @
                 map (requestOf model hist tokenLimit systemPrompt temp tp) (usableKeys s model),
              ledger := ledger s @ map (quotaRejection sessionId model) (usableKeys s model)\<rparr>)"
    using assms(1) unfolding b by (simp add: callChatApi_def)
  moreover have "Error allKeysDepletedMessage \<noteq> Error (dailyLimitMessage m)"
    by (simp add: Error_def depleted_not_dailyLimit)
  ultimately show ?thesis by simp
qed

text \<open>
  The backend that rejects everything, on the two credentials of the example state still
  usable for \<open>gemini-pro\<close>: two requests, two quota rejections, and the depleted error.
\<close>

theorem callChatApi_all_quota_witness:
  "callChatApi ex_env_quota ''s1'' ''gemini-pro'' [] 8192 ''be brief'' 1 1 ex_state =
     (Inl (Error allKeysDepletedMessage),
      ex_state\<lparr>gatewayLog :=
          [\<lparr>rq_apiKey = ex_key2, rq_model = ''gemini-pro'', rq_history = [],
            rq_historyTokenLimit = 8192, rq_systemPrompt = ''be brief'',
            rq_temperature = 1, rq_topP = 1\<rparr>,
           \<lparr>rq_apiKey = ex_key3, rq_model = ''gemini-pro'', rq_history = [],
            rq_historyTokenLimit = 8192, rq_systemPrompt = ''be brief'',
            rq_temperature = 1, rq_topP = 1\<rparr>],
        ledger :=
          [\<lparr>ue_sessionId = ''s1'', ue_model = ''gemini-pro'', ue_usage = \<lparr>totalTokenCount = 0\<rparr>,
            ue_keyIdentifier = ''key_2222'', ue_isQuotaRejection = True\<rparr>,
           \<lparr>ue_sessionId = ''s1'', ue_model = ''gemini-pro'', ue_usage = \<lparr>totalTokenCount = 0\<rparr>,
            ue_keyIdentifier = ''key_3333'', ue_isQuotaRejection = True\<rparr>]\<rparr>)"
proof -
  have ne: "usableKeys ex_state ''gemini-pro'' \<noteq> []" by (simp add: ex_usable_pro)
  have q: "\<forall>n < length (usableKeys ex_state ''gemini-pro''). \<exists>e.
           apiCall ex_env_quota
             (gatewayLog ex_state @
              map (requestOf ''gemini-pro'' [] 8192 ''be brief'' 1 1)
                (take n (usableKeys ex_state ''gemini-pro'')))
             (requestOf ''gemini-pro'' [] 8192 ''be brief'' 1 1
                (usableKeys ex_state ''gemini-pro'' ! n)) = Inl e \<and>
           \<not> isAbortError e \<and> isQuotaError e"
    by (simp add: ex_quota_error isAbortError_def isQuotaError_def)
  have g: "gatewayLog ex_state = []" "ledger ex_state = []" by (simp_all add: ex_state_def)
  show ?thesis
    using callChatApi_all_quota[OF ne q, of "''s1''"]
    by (simp add: ex_usable_pro g requestOf_def quotaRejection_def zeroUsage_def
          getApiKeyIdentifier_def slice_last_def ex_key2_def ex_key3_def)
qed

lemma ex_fatal_run:
  "callChatApi ex_env_fatal ''s1'' ''gemini-flash'' [] 8192 ''be brief'' 1 1 ex_state =
     (Inl ex_error500,
      ex_state\<lparr>gatewayLog := [ex_request ex_key1, ex_request ex_key2],
               ledger := [quotaRejection ''s1'' ''gemini-flash'' ex_key1]\<rparr>)"
proof -
  have b: "\<lparr>rq_apiKey = None, rq_model = ''gemini-flash'', rq_history = [],
            rq_historyTokenLimit = 8192, rq_systemPrompt = ''be brief'',
            rq_temperature = 1, rq_topP = 1\<rparr> = ex_request None"
    by (simp add: ex_request_def)
  have g: "gatewayLog ex_state = []" "ledger ex_state = []" by (simp_all add: ex_state_def)
  have m: "rq_model (ex_request None) = ''gemini-flash''" by (simp add: ex_request_def)
  show ?thesis
    unfolding callChatApi_def b ex_usable_flash
    by (simp add: chat_def ex_request_update ex_fatal_apiCall ex_keys_distinct
          ex_error429_class ex_error500_class recordApiUsage_def quotaRejection_def g m)
qed

lemma ex_abort_run:
  "callChatApi ex_env_abort ''s1'' ''gemini-flash'' [] 8192 ''be brief'' 1 1 ex_state =
     (Inl ex_abort, ex_state\<lparr>gatewayLog := [ex_request ex_key1]\<rparr>)"
proof -
  have b: "\<lparr>rq_apiKey = None, rq_model = ''gemini-flash'', rq_history = [],
            rq_historyTokenLimit = 8192, rq_systemPrompt = ''be brief'',
            rq_temperature = 1, rq_topP = 1\<rparr> = ex_request None"
    by (simp add: ex_request_def)
  have g: "gatewayLog ex_state = []" by (simp add: ex_state_def)
  show ?thesis
    unfolding callChatApi_def b ex_usable_flash
    by (simp add: chat_def ex_request_update ex_abort_apiCall ex_abort_class g)
qed

text \<open>
  C2. Take any run of \<^verbatim>\<open>callChatApi\<close> and any of the requests it sent, the \<open>i\<close>-th. If the
  backend answered that request with an error that is an \<^verbatim>\<open>AbortError\<close> (a cancellation,
  whatever its message or status say) or that is not a quota error, then the run fails
  with that very error, that request is the last one it sent, the requests went to the
  first \<open>i + 1\<close> usable credentials in order, and the ledger received quota rejections for
  the \<open>i\<close> credentials before it only: none for the cancelled or failed one.
\<close>

theorem callChatApi_fail_fast:
  assumes "callChatApi env sessionId model hist tokenLimit systemPrompt temp tp s = (r, s')"
    and "i < length (requestsOfRun s s')"
    and "apiCall env (gatewayLog s @ take i (requestsOfRun s s')) (requestsOfRun s s' ! i) = Inl e"
    and "isAbortError e \<or> \<not> isQuotaError e"
  shows "r = Inl e \<and>
         length (requestsOfRun s s') = Suc i \<and>
         map rq_apiKey (requestsOfRun s s') = take (Suc i) (usableKeys s model) \<and>
         entriesOfRun s s' = map (quotaRejection sessionId model) (take i (usableKeys s model))"
proof -
  let ?body = "\<lparr>rq_apiKey = None, rq_model = model, rq_history = hist,
                 rq_historyTokenLimit = tokenLimit, rq_systemPrompt = systemPrompt,
                 rq_temperature = temp, rq_topP = tp\<rparr>"
  let ?cs = "requestsOfRun s s'"
  from callChatApi_frame[OF assms(1)] obtain cs es
    where s': "s' = s\<lparr>gatewayLog := gatewayLog s @ cs, ledger := ledger s @ es\<rparr>" by blast
  then have log: "gatewayLog s' = gatewayLog s @ ?cs" and led: "ledger s' = ledger s @ entriesOfRun s s'"
    by (simp_all add: requestsOfRun_def entriesOfRun_def)
  have ne: "usableKeys s model \<noteq> []"
  proof
    assume "usableKeys s model = []"
    with assms(1) have "s' = s" by (simp add: callChatApi_def)
    with assms(2) show False by (simp add: requestsOfRun_def)
  qed
  obtain r0 s0 where t: "tryKeys env sessionId ?body (usableKeys s model) s = (r0, s0)"
    by (cases "tryKeys env sessionId ?body (usableKeys s model) s")
  with assms(1) ne have s0: "s0 = s'"
    by (auto simp: callChatApi_def split: sum.splits option.splits)
  from tryKeys_fail_fast[OF t[unfolded s0] log assms(2) assms(3) assms(4)]
  have ff: "r0 = Inl e" "length ?cs = Suc i"
    "?cs = map (\<lambda>k. ?body\<lparr>rq_apiKey := k\<rparr>) (take (Suc i) (usableKeys s model))"
    "ledger s' = ledger s @ map (quotaRejection sessionId (rq_model ?body)) (take i (usableKeys s model))"
    by blast+
  from assms(1) ne t ff(1) have "r = Inl e" by (simp add: callChatApi_def)
  moreover have "map rq_apiKey ?cs = take (Suc i) (usableKeys s model)"
    by (subst ff(3)) (simp add: comp_def)
  moreover have "entriesOfRun s s' = map (quotaRejection sessionId model) (take i (usableKeys s model))"
    using ff(4) led by simp
  ultimately show ?thesis using ff(2) by simp
qed

text \<open>
  Two runs over the three usable credentials of the example state. In the first the
  backend rejects the primary credential for quota and answers the second with status
  500: the run fails with that error and the third credential is never tried. In the
  second the first request is cancelled, with a message that mentions a quota: the run
  fails with the cancellation and the ledger receives nothing.
\<close>

theorem callChatApi_fail_fast_witness:
  "fst (callChatApi ex_env_fatal ''s1'' ''gemini-flash'' [] 8192 ''be brief'' 1 1 ex_state) =
     Inl ex_error500 \<and>
   map rq_apiKey (requestsOfRun ex_state
     (snd (callChatApi ex_env_fatal ''s1'' ''gemini-flash'' [] 8192 ''be brief'' 1 1 ex_state))) =
     [ex_key1, ex_key2] \<and>
   entriesOfRun ex_state
     (snd (callChatApi ex_env_fatal ''s1'' ''gemini-flash'' [] 8192 ''be brief'' 1 1 ex_state)) =
     [quotaRejection ''s1'' ''gemini-flash'' ex_key1] \<and>
   fst (callChatApi ex_env_abort ''s1'' ''gemini-flash'' [] 8192 ''be brief'' 1 1 ex_state) =
     Inl ex_abort \<and>
   map rq_apiKey (requestsOfRun ex_state
     (snd (callChatApi ex_env_abort ''s1'' ''gemini-flash'' [] 8192 ''be brief'' 1 1 ex_state))) =
     [ex_key1] \<and>
   entriesOfRun ex_state
     (snd (callChatApi ex_env_abort ''s1'' ''gemini-flash'' [] 8192 ''be brief'' 1 1 ex_state)) = []"
proof -
  let ?s1 = "ex_state\<lparr>gatewayLog := [ex_request ex_key1, ex_request ex_key2],
               ledger := [quotaRejection ''s1'' ''gemini-flash'' ex_key1]\<rparr>"
  let ?s2 = "ex_state\<lparr>gatewayLog := [ex_request ex_key1]\<rparr>"
  have g: "gatewayLog ex_state = []" by (simp add: ex_state_def)
  have r1: "requestsOfRun ex_state ?s1 = [ex_request ex_key1, ex_request ex_key2]"
    by (simp add: requestsOfRun_def g)
  have r2: "requestsOfRun ex_state ?s2 = [ex_request ex_key1]"
    by (simp add: requestsOfRun_def g)
  have i1: "1 < length (requestsOfRun ex_state ?s1)" by (simp add: r1)
  have i2: "0 < length (requestsOfRun ex_state ?s2)" by (simp add: r2)
  have a1: "apiCall ex_env_fatal (gatewayLog ex_state @ take 1 (requestsOfRun ex_state ?s1))
              (requestsOfRun ex_state ?s1 ! 1) = Inl ex_error500"
    by (simp add: r1 ex_fatal_apiCall ex_keys_distinct)
  have a2: "apiCall ex_env_abort (gatewayLog ex_state @ take 0 (requestsOfRun ex_state ?s2))
              (requestsOfRun ex_state ?s2 ! 0) = Inl ex_abort"
    by (simp add: ex_abort_apiCall)
  have c1: "isAbortError ex_error500 \<or> \<not> isQuotaError ex_error500"
    by (simp add: ex_error500_class)
  have c2: "isAbortError ex_abort \<or> \<not> isQuotaError ex_abort"
    by (simp add: ex_abort_class)
  note f1 = callChatApi_fail_fast[OF ex_fatal_run i1 a1 c1]
  note f2 = callChatApi_fail_fast[OF ex_abort_run i2 a2 c2]
  show ?thesis
    using f1 f2 by (simp add: ex_fatal_run ex_abort_run ex_usable_flash)
qed

section \<open>Properties of regeneration\<close>

lemma regenerate_truncate_target:
  assumes "sessions s sessionId = Some session" and "loadingStates s sessionId = None"
    and "regenerateTarget (history session) messageId i j"
  shows "regenerate_truncate sessionId messageId s =
         Some (s\<lparr>sessions := (sessions s)
                 (sessionId \<mapsto> session\<lparr>history := take (Suc j) (history session)\<rparr>)\<rparr>)"
proof -
  let ?h = "history session"
  from assms(3) have t: "i < length ?h" "msg_id (?h ! i) = messageId"
    "\<forall>k<i. msg_id (?h ! k) \<noteq> messageId" "msg_role (?h ! i) = Model"
    "j < i" "msg_role (?h ! j) = User" "\<forall>k. j < k \<and> k < i \<longrightarrow> msg_role (?h ! k) \<noteq> User"
    by (simp_all add: regenerateTarget_def)
  have mi: "findIndex (\<lambda>m. msg_id m = messageId) ?h = int i"
    using t(1,2,3) by (simp add: findIndex_char)
  have lu: "findLastIndex (\<lambda>m. msg_role m = User) (take i ?h) = int j"
    using t(1,5,6,7) by (simp add: findLastIndex_char)
  have n: "nat (int j + 1) = Suc j" by simp
  show ?thesis
    using assms(1,2) t(4,5) by (simp add: regenerate_truncate_def mi lu n Let_def)
qed

lemma regenerate_truncate_no_target:
  assumes "sessions s sessionId = Some session"
    and "\<forall>i j. \<not> regenerateTarget (history session) messageId i j"
  shows "regenerate_truncate sessionId messageId s = None"
proof (rule ccontr)
  let ?h = "history session"
  let ?mi = "findIndex (\<lambda>m. msg_id m = messageId) ?h"
  let ?lu = "findLastIndex (\<lambda>m. msg_role m = User) (take (nat ?mi) ?h)"
  assume "regenerate_truncate sessionId messageId s \<noteq> None"
  with assms(1) have c: "1 \<le> ?mi" "msg_role (?h ! nat ?mi) = Model" "?lu \<noteq> -1"
    by (auto simp: regenerate_truncate_def Let_def split: if_splits)
  define i where "i = nat ?mi"
  have mi: "?mi = int i" using c(1) by (simp add: i_def)
  then have ti: "i < length ?h" "msg_id (?h ! i) = messageId" "\<forall>k<i. msg_id (?h ! k) \<noteq> messageId"
    by (simp_all add: findIndex_char)
  have "-1 \<le> ?lu" using findLastIndex_bounds[of "\<lambda>m. msg_role m = User" "take (nat ?mi) ?h"] by simp
  with c(3) have "0 \<le> ?lu" by simp
  then obtain j where lu: "?lu = int j" using nonneg_int_cases by blast
  then have "findLastIndex (\<lambda>m. msg_role m = User) (take i ?h) = int j" by (simp add: i_def)
  then have "j < length (take i ?h) \<and> msg_role (take i ?h ! j) = User \<and>
    (\<forall>k. j < k \<and> k < length (take i ?h) \<longrightarrow> msg_role (take i ?h ! k) \<noteq> User)"
    by (rule findLastIndex_char[THEN iffD1])
  then have tj: "j < length (take i ?h)" "msg_role (take i ?h ! j) = User"
    "\<forall>k. j < k \<and> k < length (take i ?h) \<longrightarrow> msg_role (take i ?h ! k) \<noteq> User"
    by blast+
  from tj(1) ti(1) have ji: "j < i" by simp
  with tj(2) have uj: "msg_role (?h ! j) = User" by simp
  have between: "\<forall>k. j < k \<and> k < i \<longrightarrow> msg_role (?h ! k) \<noteq> User"
  proof (intro allI impI)
    fix k assume k: "j < k \<and> k < i"
    with ti(1) have "k < length (take i ?h)" by simp
    with tj(3) k have "msg_role (take i ?h ! k) \<noteq> User" by blast
    with k show "msg_role (?h ! k) \<noteq> User" by simp
  qed
  have "regenerateTarget ?h messageId i j"
    using ti c(2) ji uj between by (simp add: regenerateTarget_def i_def)
  with assms(2) show False by blast
qed

text \<open>
  C6, as the code has it. For a conversation that exists and is not thinking, with the
  target a model message and \<open>j\<close> the position of the nearest user message before it,
  \<^verbatim>\<open>regenerate\<close> is the lifecycle run on the history cut after position \<open>j\<close>: the history
  entering the lifecycle ends with that user message and nothing is appended to it. When
  the conversation does not exist, or is thinking, or its history has no such target,
  \<^verbatim>\<open>regenerate\<close> returns at once and leaves the state as it was.
\<close>

theorem regenerate_truncates_history:
  "(sessions s sessionId = Some session \<and> loadingStates s sessionId = None \<and>
    regenerateTarget (history session) messageId i j \<longrightarrow>
      regenerate env sessionId messageId s =
        runChatLifecycle env sessionId
          (s\<lparr>sessions := (sessions s)
              (sessionId \<mapsto> session\<lparr>history := take (Suc j) (history session)\<rparr>)\<rparr>) \<and>
      last (take (Suc j) (history session)) = history session ! j \<and>
      msg_role (history session ! j) = User \<and>
      length (take (Suc j) (history session)) \<le> i) \<and>
   (sessions s sessionId = None \<or> loadingStates s sessionId \<noteq> None \<or>
    (\<exists>session'. sessions s sessionId = Some session' \<and>
       (\<forall>i' j'. \<not> regenerateTarget (history session') messageId i' j')) \<longrightarrow>
      regenerate env sessionId messageId s = (None, s))"
proof (intro conjI impI)
  assume a: "sessions s sessionId = Some session \<and> loadingStates s sessionId = None \<and>
    regenerateTarget (history session) messageId i j"
  then have t: "i < length (history session)" "j < i" "msg_role (history session ! j) = User"
    by (simp_all add: regenerateTarget_def)
  from a show "regenerate env sessionId messageId s =
        runChatLifecycle env sessionId
          (s\<lparr>sessions := (sessions s)
              (sessionId \<mapsto> session\<lparr>history := take (Suc j) (history session)\<rparr>)\<rparr>)"
    using regenerate_truncate_target[of s sessionId session messageId i j]
    by (simp add: regenerate_def)
  from t show "last (take (Suc j) (history session)) = history session ! j"
    by (simp add: take_Suc_conv_app_nth)
  from t show "msg_role (history session ! j) = User" by simp
  from t show "length (take (Suc j) (history session)) \<le> i" by simp
next
  assume "sessions s sessionId = None \<or> loadingStates s sessionId \<noteq> None \<or>
    (\<exists>session'. sessions s sessionId = Some session' \<and>
       (\<forall>i' j'. \<not> regenerateTarget (history session') messageId i' j'))"
  then have "regenerate_truncate sessionId messageId s = None"
  proof (elim disjE exE conjE)
    assume "sessions s sessionId = None"
    then show ?thesis by (simp add: regenerate_truncate_def)
  next
    assume "loadingStates s sessionId \<noteq> None"
    then show ?thesis by (auto simp: regenerate_truncate_def split: option.splits)
  next
    fix session'
    assume "sessions s sessionId = Some session'"
      "\<forall>i' j'. \<not> regenerateTarget (history session') messageId i' j'"
    then show ?thesis by (rule regenerate_truncate_no_target)
  qed
  then show "regenerate env sessionId messageId s = (None, s)"
    by (simp add: regenerate_def)
qed

text \<open>
  On the idle example state, regenerating the model message \<open>m2\<close> enters the lifecycle
  with the history cut down to the user message \<open>m1\<close>; asking for \<open>m3\<close>, a user message,
  changes nothing.
\<close>

theorem regenerate_truncates_history_witness:
  "regenerate ex_env_quota ''s1'' ''m2'' ex_state =
     runChatLifecycle ex_env_quota ''s1''
       (ex_state\<lparr>sessions := (sessions ex_state)(''s1'' \<mapsto> ex_session\<lparr>history := [ex_m1]\<rparr>)\<rparr>) \<and>
   regenerate ex_env_quota ''s1'' ''m3'' ex_state = (None, ex_state)"
proof -
  have a: "sessions ex_state ''s1'' = Some ex_session \<and> loadingStates ex_state ''s1'' = None \<and>
           regenerateTarget (history ex_session) ''m2'' 1 0"
    using ex_sessions ex_target_m2 by simp
  have b: "sessions ex_state ''s1'' = None \<or> loadingStates ex_state ''s1'' \<noteq> None \<or>
    (\<exists>session'. sessions ex_state ''s1'' = Some session' \<and>
       (\<forall>i' j'. \<not> regenerateTarget (history session') ''m3'' i' j'))"
    using ex_sessions ex_no_target_m3 by simp
  have c: "take (Suc 0) (history ex_session) = [ex_m1]"
    by (simp add: ex_sessions ex_history_def)
  from regenerate_truncates_history[of ex_state "''s1''" ex_session "''m2''" 1 0 ex_env_quota] a
  have 1: "regenerate ex_env_quota ''s1'' ''m2'' ex_state =
     runChatLifecycle ex_env_quota ''s1''
       (ex_state\<lparr>sessions := (sessions ex_state)(''s1'' \<mapsto> ex_session\<lparr>history := [ex_m1]\<rparr>)\<rparr>)"
    by (simp add: c)
  from regenerate_truncates_history[of ex_state "''s1''" ex_session "''m3''" 1 0 ex_env_quota] b
  have 2: "regenerate ex_env_quota ''s1'' ''m3'' ex_state = (None, ex_state)"
    by blast
  show ?thesis using 1 2 by simp
qed

text \<open>
  C6 as stated fails: in the example conversation the target \<open>m2\<close> exists, is a model
  message, is not the first message and follows the user message \<open>m1\<close>; yet while the
  conversation is thinking \<^verbatim>\<open>regenerate\<close> leaves its three messages in place.
\<close>

theorem regenerate_refused_while_thinking:
  "regenerateTarget ex_history ''m2'' 1 0 \<and>
   sessions ex_thinking ''s1'' = Some ex_session \<and>
   history ex_session = [ex_m1, ex_m2, ex_m3] \<and>
   regenerate ex_env_quota ''s1'' ''m2'' ex_thinking = (None, ex_thinking)"
  using ex_target_m2 ex_thinking_sessions
  by (simp add: regenerate_def regenerate_truncate_def ex_session_def ex_history_def)

section \<open>Properties of the lifecycle run\<close>

lemma usableKeys_enterThinking [simp]:
  "usableKeys (enterThinking env sessionId s) model = usableKeys s model"
  by (simp add: usableKeys_def allKeys_def configuredKeys_def usableKey_def modelLimit_def
        usageOf_def enterThinking_def)








section \<open>Properties of the credential identifier\<close>

lemma tryKeys_ledger_extends:
  "\<exists>es. ledger (snd (tryKeys env sid body keys s)) = ledger s @ es"
  using tryKeys_frame[of keys env sid body s] by auto

lemma callChatApi_first_quota_entry:
  assumes "usableKeys s model = key # rest"
    and "apiCall env (gatewayLog s) (requestOf model hist tokenLimit systemPrompt temp tp key) = Inl e"
    and "\<not> isAbortError e" and "isQuotaError e"
  shows "take 1 (entriesOfRun s (snd (callChatApi env sessionId model hist tokenLimit systemPrompt temp tp s))) =
         [quotaRejection sessionId model key]"
proof -
  let ?body = "\<lparr>rq_apiKey = None, rq_model = model, rq_history = hist,
                 rq_historyTokenLimit = tokenLimit, rq_systemPrompt = systemPrompt,
                 rq_temperature = temp, rq_topP = tp\<rparr>"
  let ?s1 = "s\<lparr>gatewayLog := gatewayLog s @ [?body\<lparr>rq_apiKey := key\<rparr>],
                ledger := ledger s @ [quotaRejection sessionId (rq_model ?body) key]\<rparr>"
  have b: "?body\<lparr>rq_apiKey := key\<rparr> = requestOf model hist tokenLimit systemPrompt temp tp key"
    by (simp add: requestOf_def)
  have a: "apiCall env (gatewayLog s) (?body\<lparr>rq_apiKey := key\<rparr>) = Inl e"
    using assms(2) unfolding b .
  have step: "tryKeys env sessionId ?body (key # rest) s = tryKeys env sessionId ?body rest ?s1"
    by (rule tryKeys_quota_step[OF a assms(3,4)])
  obtain es where es: "ledger (snd (tryKeys env sessionId ?body rest ?s1)) = ledger ?s1 @ es"
    using tryKeys_ledger_extends by blast
  have "snd (callChatApi env sessionId model hist tokenLimit systemPrompt temp tp s) =
        snd (tryKeys env sessionId ?body (key # rest) s)"
    using assms(1) by (simp add: callChatApi_def split: prod.splits sum.splits option.splits
                          del: tryKeys.simps)
  then have "ledger (snd (callChatApi env sessionId model hist tokenLimit systemPrompt temp tp s)) =
        ledger s @ [quotaRejection sessionId model key] @ es"
    using step es by simp
  then show ?thesis by (simp add: entriesOfRun_def)
qed

lemma executeChat_catch_ledger [simp]:
  "ledger (snd (executeChat_catch env sessionId error s)) = ledger s"
  by (simp add: executeChat_catch_def addMessage_def Let_def
           split: option.splits sum.splits prod.splits)

lemma executeChat_rest_ledger:
  "ledger (snd (executeChat_rest env sessionId session apiResponse s)) =
   ledger s @
     [\<lparr>ue_sessionId = sessionId, ue_model = sess_model session,
       ue_usage = resp_usage apiResponse,
       ue_keyIdentifier = getApiKeyIdentifier (usedApiKey apiResponse),
       ue_isQuotaRejection = False\<rparr>]"
  by (simp add: executeChat_rest_def recordApiUsage_def addMessage_def Let_def
           split: option.splits sum.splits prod.splits)

lemma executeChat_served_entry:
  assumes "sessions s sessionId = Some session"
    and "sessionRequest env sessionId session s = (Inr apiResponse, s1)"
  shows "entriesOfRun s1 (snd (executeChat env sessionId s)) =
         [\<lparr>ue_sessionId = sessionId, ue_model = sess_model session,
           ue_usage = resp_usage apiResponse,
           ue_keyIdentifier = getApiKeyIdentifier (usedApiKey apiResponse),
           ue_isQuotaRejection = False\<rparr>]"
proof -
  obtain thrown s2 where r: "executeChat_rest env sessionId session apiResponse s1 = (thrown, s2)"
    by (cases "executeChat_rest env sessionId session apiResponse s1")
  with executeChat_rest_ledger[of env sessionId session apiResponse s1]
  have l2: "ledger s2 = ledger s1 @
     [\<lparr>ue_sessionId = sessionId, ue_model = sess_model session,
       ue_usage = resp_usage apiResponse,
       ue_keyIdentifier = getApiKeyIdentifier (usedApiKey apiResponse),
       ue_isQuotaRejection = False\<rparr>]" by simp
  have "ledger (snd (executeChat env sessionId s)) = ledger s2"
    using assms r by (cases thrown) (simp_all add: executeChat_def executeChat_try_def)
  with l2 show ?thesis by (simp add: entriesOfRun_def)
qed

text \<open>
  C10. The identifier of a non-empty credential is \<open>key_\<close> followed by its last four
  characters (all of them when it has fewer), and that of an empty or absent credential is
  \<open>no_key\<close>. Let two credentials end in the same four characters and let \<open>k\<close> be either
  of them. The limit check of \<open>k\<close> reads the usage kept under the one identifier; when the
  backend rejects the request of \<open>k\<close> for quota, \<^verbatim>\<open>callChatApi\<close> records the rejection under
  that identifier; and when \<open>k\<close> serves the request of a run, \<^verbatim>\<open>executeChat\<close> records the
  usage under that identifier.
\<close>

theorem getApiKeyIdentifier_shared:
  assumes "k1 \<noteq> []" and "k2 \<noteq> []" and "slice_last 4 k1 = slice_last 4 k2"
    and "k = k1 \<or> k = k2"
  shows "getApiKeyIdentifier (Some k) = ''key_'' @ slice_last 4 k1 \<and>
         suffix (slice_last 4 k1) k1 \<and> length (slice_last 4 k1) = min 4 (length k1) \<and>
         getApiKeyIdentifier None = ''no_key'' \<and> getApiKeyIdentifier (Some []) = ''no_key'' \<and>
         usableKey s model (Some k) =
           (modelLimit s model = 0 \<or>
            usageOf s (''key_'' @ slice_last 4 k1) model < modelLimit s model) \<and>
         (usableKeys s model = Some k # rest \<and>
          apiCall env (gatewayLog s)
            (requestOf model hist tokenLimit systemPrompt temp tp (Some k)) = Inl e \<and>
          \<not> isAbortError e \<and> isQuotaError e \<longrightarrow>
            take 1 (entriesOfRun s
              (snd (callChatApi env sessionId model hist tokenLimit systemPrompt temp tp s))) =
            [\<lparr>ue_sessionId = sessionId, ue_model = model, ue_usage = zeroUsage,
              ue_keyIdentifier = ''key_'' @ slice_last 4 k1, ue_isQuotaRejection = True\<rparr>]) \<and>
         (sessions s sessionId = Some session \<and>
          sessionRequest env sessionId session s = (Inr apiResponse, s1) \<and>
          usedApiKey apiResponse = Some k \<longrightarrow>
            entriesOfRun s1 (snd (executeChat env sessionId s)) =
            [\<lparr>ue_sessionId = sessionId, ue_model = sess_model session,
              ue_usage = resp_usage apiResponse,
              ue_keyIdentifier = ''key_'' @ slice_last 4 k1, ue_isQuotaRejection = False\<rparr>])"
proof -
  have id: "getApiKeyIdentifier (Some k) = ''key_'' @ slice_last 4 k1"
    using assms by (auto simp: getApiKeyIdentifier_def)
  have suf: "suffix (slice_last 4 k1) k1"
    by (simp add: slice_last_def suffix_drop)
  have len: "length (slice_last 4 k1) = min 4 (length k1)"
    by (simp add: slice_last_def)
  have no: "getApiKeyIdentifier None = ''no_key''" "getApiKeyIdentifier (Some []) = ''no_key''"
    by (simp_all add: getApiKeyIdentifier_def)
  have use: "usableKey s model (Some k) =
           (modelLimit s model = 0 \<or>
            usageOf s (''key_'' @ slice_last 4 k1) model < modelLimit s model)"
    by (simp add: usableKey_def id)
  have rej: "usableKeys s model = Some k # rest \<and>
          apiCall env (gatewayLog s)
            (requestOf model hist tokenLimit systemPrompt temp tp (Some k)) = Inl e \<and>
          \<not> isAbortError e \<and> isQuotaError e \<longrightarrow>
            take 1 (entriesOfRun s
              (snd (callChatApi env sessionId model hist tokenLimit systemPrompt temp tp s))) =
            [\<lparr>ue_sessionId = sessionId, ue_model = model, ue_usage = zeroUsage,
              ue_keyIdentifier = ''key_'' @ slice_last 4 k1, ue_isQuotaRejection = True\<rparr>]"
  proof
    assume a: "usableKeys s model = Some k # rest \<and>
          apiCall env (gatewayLog s)
            (requestOf model hist tokenLimit systemPrompt temp tp (Some k)) = Inl e \<and>
          \<not> isAbortError e \<and> isQuotaError e"
    then have "take 1 (entriesOfRun s
              (snd (callChatApi env sessionId model hist tokenLimit systemPrompt temp tp s))) =
            [quotaRejection sessionId model (Some k)]"
      using callChatApi_first_quota_entry[of s model "Some k" rest env hist tokenLimit
              systemPrompt temp tp e sessionId] by blast
    then show "take 1 (entriesOfRun s
              (snd (callChatApi env sessionId model hist tokenLimit systemPrompt temp tp s))) =
            [\<lparr>ue_sessionId = sessionId, ue_model = model, ue_usage = zeroUsage,
              ue_keyIdentifier = ''key_'' @ slice_last 4 k1, ue_isQuotaRejection = True\<rparr>]"
      by (simp add: quotaRejection_def id)
  qed
  have srv: "sessions s sessionId = Some session \<and>
          sessionRequest env sessionId session s = (Inr apiResponse, s1) \<and>
          usedApiKey apiResponse = Some k \<longrightarrow>
            entriesOfRun s1 (snd (executeChat env sessionId s)) =
            [\<lparr>ue_sessionId = sessionId, ue_model = sess_model session,
              ue_usage = resp_usage apiResponse,
              ue_keyIdentifier = ''key_'' @ slice_last 4 k1, ue_isQuotaRejection = False\<rparr>]"
  proof
    assume a: "sessions s sessionId = Some session \<and>
          sessionRequest env sessionId session s = (Inr apiResponse, s1) \<and>
          usedApiKey apiResponse = Some k"
    then have "entriesOfRun s1 (snd (executeChat env sessionId s)) =
         [\<lparr>ue_sessionId = sessionId, ue_model = sess_model session,
           ue_usage = resp_usage apiResponse,
           ue_keyIdentifier = getApiKeyIdentifier (usedApiKey apiResponse),
           ue_isQuotaRejection = False\<rparr>]"
      using executeChat_served_entry[of s sessionId session env apiResponse s1] by blast
    with a show "entriesOfRun s1 (snd (executeChat env sessionId s)) =
            [\<lparr>ue_sessionId = sessionId, ue_model = sess_model session,
              ue_usage = resp_usage apiResponse,
              ue_keyIdentifier = ''key_'' @ slice_last 4 k1, ue_isQuotaRejection = False\<rparr>]"
      by (simp add: id)
  qed
  show ?thesis
    using id suf len no use rej srv by blast
qed


lemma callChatApi_first_served:
  assumes "usableKeys s model = key # rest"
    and "apiCall env (gatewayLog s)
           (requestOf model hist tokenLimit systemPrompt temp tp key) = Inr response"
  shows "callChatApi env sessionId model hist tokenLimit systemPrompt temp tp s =
         (Inr \<lparr>reply_text = data_reply_text response, resp_usage = data_usage response,
               usedApiKey = key\<rparr>,
          s\<lparr>gatewayLog := gatewayLog s @
            [requestOf model hist tokenLimit systemPrompt temp tp key]\<rparr>)"
  using assms by (simp add: callChatApi_def chat_def requestOf_def)

lemma ex_state_key4_usable:
  "usableKeys ex_state_key4 ''gemini-flash'' = Some ex_key4 # [ex_key2, ex_key3]"
  by (simp add: ex_state_key4_def ex_key4_def ex_state_defs selection_defs)

lemma ex_state_key4_fields:
  "sessions ex_state_key4 ''s1'' = Some ex_session" "gatewayLog ex_state_key4 = []"
  "ledger ex_state_key4 = []"
  by (simp_all add: ex_state_key4_def ex_state_def)

text \<open>
  The credential \<open>AIza-another-1111\<close> ends like the primary credential of the example
  state. It is not usable for \<open>gemini-pro\<close>, for which the two calls of the primary
  credential are on record under \<open>key_1111\<close>; as the primary credential itself, its
  rejection for quota and the usage of the request it serves are recorded under
  \<open>key_1111\<close> as well.
\<close>

theorem getApiKeyIdentifier_shared_witness:
  "getApiKeyIdentifier (Some ex_key4) = ''key_1111'' \<and>
   usableKey ex_state ''gemini-pro'' (Some ex_key4) = False \<and>
   take 1 (entriesOfRun ex_state_key4
     (snd (callChatApi ex_env_quota ''s1'' ''gemini-flash'' [] 8192 ''be brief'' 1 1
            ex_state_key4))) =
     [\<lparr>ue_sessionId = ''s1'', ue_model = ''gemini-flash'', ue_usage = \<lparr>totalTokenCount = 0\<rparr>,
       ue_keyIdentifier = ''key_1111'', ue_isQuotaRejection = True\<rparr>] \<and>
   ledger (snd (executeChat ex_env_ok ''s1'' ex_state_key4)) =
     [\<lparr>ue_sessionId = ''s1'', ue_model = ''gemini-flash'', ue_usage = \<lparr>totalTokenCount = 42\<rparr>,
       ue_keyIdentifier = ''key_1111'', ue_isQuotaRejection = False\<rparr>]"
proof -
  let ?k1 = "''AIza-primary-1111''"
  have ne: "?k1 \<noteq> []" "ex_key4 \<noteq> []" by (simp_all add: ex_key4_def)
  have sl: "slice_last 4 ?k1 = slice_last 4 ex_key4"
    by (simp add: slice_last_def ex_key4_def)
  have sl1: "slice_last 4 ?k1 = ''1111''" by (simp add: slice_last_def)
  have k: "ex_key4 = ?k1 \<or> ex_key4 = ex_key4" by simp
  have u: "usageOf ex_state ''key_1111'' ''gemini-pro'' = 2"
    by (simp add: usageOf_def ex_state_def ex_dailyUsage_def)
  have l: "modelLimit ex_state ''gemini-pro'' = 2"
    by (simp add: modelLimit_def ex_state_def ex_settings_def)
  have q: "apiCall ex_env_quota (gatewayLog ex_state_key4)
             (requestOf ''gemini-flash'' [] 8192 ''be brief'' 1 1 (Some ex_key4)) =
           Inl \<lparr>err_name = ''Error'', err_message = ''Resource has been exhausted'',
                err_status = Some 429\<rparr>"
    by (rule ex_quota_error)
  have qc: "\<not> isAbortError \<lparr>err_name = ''Error'', err_message = ''Resource has been exhausted'',
                err_status = Some 429\<rparr>"
       "isQuotaError \<lparr>err_name = ''Error'', err_message = ''Resource has been exhausted'',
                err_status = Some 429\<rparr>"
    by (simp_all add: isAbortError_def isQuotaError_def)
  let ?req = "requestOf (sess_model ex_session) (filterHistoryForApi (history ex_session))
                (historyTokenLimit (settings ex_state_key4))
                (systemPromptOf ex_state_key4 ex_session)
                (temperature (settings ex_state_key4)) (topP (settings ex_state_key4))
                (Some ex_key4)"
  let ?resp = "\<lparr>reply_text = data_reply_text ex_served, resp_usage = data_usage ex_served,
                 usedApiKey = Some ex_key4\<rparr>"
  let ?s1 = "ex_state_key4\<lparr>gatewayLog := gatewayLog ex_state_key4 @ [?req]\<rparr>"
  have m: "sess_model ex_session = ''gemini-flash''" by (simp add: ex_session_def)
  have ok: "apiCall ex_env_ok (gatewayLog ex_state_key4) ?req = Inr ex_served"
    by (simp add: apiCall_def ex_env_ok_def ex_served_def)
  have um: "usableKeys ex_state_key4 (sess_model ex_session) = Some ex_key4 # [ex_key2, ex_key3]"
    by (simp add: m ex_state_key4_usable)
  have rq: "sessionRequest ex_env_ok ''s1'' ex_session ex_state_key4 = (Inr ?resp, ?s1)"
    unfolding sessionRequest_def by (rule callChatApi_first_served[OF um ok])
  have used: "usedApiKey ?resp = Some ex_key4" by simp
  note t = getApiKeyIdentifier_shared[OF ne sl k]
  from t have a: "getApiKeyIdentifier (Some ex_key4) = ''key_1111''"
    by (simp add: sl1)
  from t[of ex_state "''gemini-pro''"] have b: "usableKey ex_state ''gemini-pro'' (Some ex_key4) = False"
    by (simp add: sl1 u l)
  from t[of ex_state_key4 "''gemini-flash''" "[ex_key2, ex_key3]" ex_env_quota "[]" 8192
          "''be brief''" 1 1 _ "''s1''"] ex_state_key4_usable q qc
  have c: "take 1 (entriesOfRun ex_state_key4
     (snd (callChatApi ex_env_quota ''s1'' ''gemini-flash'' [] 8192 ''be brief'' 1 1
            ex_state_key4))) =
     [\<lparr>ue_sessionId = ''s1'', ue_model = ''gemini-flash'', ue_usage = \<lparr>totalTokenCount = 0\<rparr>,
       ue_keyIdentifier = ''key_1111'', ue_isQuotaRejection = True\<rparr>]"
    by (simp add: sl1 zeroUsage_def)
  have "sessions ex_state_key4 ''s1'' = Some ex_session \<and>
        sessionRequest ex_env_ok ''s1'' ex_session ex_state_key4 = (Inr ?resp, ?s1) \<and>
        usedApiKey ?resp = Some ex_key4"
    using ex_state_key4_fields(1) rq by simp
  with t[where s = ex_state_key4 and sessionId = "''s1''" and session = ex_session
           and env = ex_env_ok and apiResponse = ?resp and ?s1.0 = ?s1]
  have "entriesOfRun ?s1 (snd (executeChat ex_env_ok ''s1'' ex_state_key4)) =
     [\<lparr>ue_sessionId = ''s1'', ue_model = sess_model ex_session,
       ue_usage = resp_usage ?resp,
       ue_keyIdentifier = ''key_'' @ slice_last 4 ?k1, ue_isQuotaRejection = False\<rparr>]"
    by blast
  then have d: "ledger (snd (executeChat ex_env_ok ''s1'' ex_state_key4)) =
     [\<lparr>ue_sessionId = ''s1'', ue_model = ''gemini-flash'', ue_usage = \<lparr>totalTokenCount = 42\<rparr>,
       ue_keyIdentifier = ''key_1111'', ue_isQuotaRejection = False\<rparr>]"
    by (simp add: entriesOfRun_def ex_state_key4_fields m sl1 ex_served_def)
  show ?thesis using a b c d by simp
qed

section \<open>Properties of the lifecycle between its suspensions\<close>

lemma chat_answered:
  "chat env body s =
     (answered body (fetch env (gatewayLog s) body), s\<lparr>gatewayLog := gatewayLog s @ [body]\<rparr>)"
  by (simp add: chat_def apiCall_def answered_def split: sum.splits)

lemma complete_settled [simp]: "complete env n (settled r) = Some r"
  by (simp add: settled_def)

text \<open>
  A run suspended on the request of a credential, with the backend answering at once, goes
  the way of the loop of \<^verbatim>\<open>callChatApi\<close> over that credential and those not yet tried, and
  then to the end of the lifecycle.
\<close>

lemma complete_suspended:
  "complete env (Suc (length rest) + m)
     (Suspended \<lparr>p_sessionId = sid, p_session = session,
                 p_body = body\<lparr>rq_apiKey := key\<rparr>, p_rest = rest\<rparr>,
      s\<lparr>gatewayLog := gatewayLog s @ [body\<lparr>rq_apiKey := key\<rparr>]\<rparr>) =
   Some (case tryKeys env sid body (key # rest) s of
           (Inl error, s') \<Rightarrow> lifecycle_after env sid session (Inl error) s'
         | (Inr None, s') \<Rightarrow>
             lifecycle_after env sid session (Inl (Error allKeysDepletedMessage)) s'
         | (Inr (Some r), s') \<Rightarrow> lifecycle_after env sid session (Inr r) s')"
proof (induction rest arbitrary: key s)
  case Nil
  show ?case
    by (simp add: run_resume_def chat_answered recordApiUsage_def Let_def split: sum.splits)
next
  case (Cons key' rest')
  let ?b = "body\<lparr>rq_apiKey := key\<rparr>"
  let ?s1 = "s\<lparr>gatewayLog := gatewayLog s @ [?b]\<rparr>"
  show ?case
  proof (cases "answered ?b (fetch env (gatewayLog s) ?b)")
    case (Inr r)
    then show ?thesis by (simp add: run_resume_def chat_answered)
  next
    case (Inl error)
    show ?thesis
    proof (cases "isAbortError error \<or> \<not> isQuotaError error")
      case True
      with Inl show ?thesis by (auto simp: run_resume_def chat_answered)
    next
      case False
      let ?s2 = "recordApiUsage sid (rq_model body) zeroUsage (getApiKeyIdentifier key) True ?s1"
      have ih: "complete env (Suc (length rest') + m)
         (Suspended \<lparr>p_sessionId = sid, p_session = session,
                     p_body = body\<lparr>rq_apiKey := key'\<rparr>, p_rest = rest'\<rparr>,
          ?s2\<lparr>gatewayLog := gatewayLog ?s2 @ [body\<lparr>rq_apiKey := key'\<rparr>]\<rparr>) =
         Some (case tryKeys env sid body (key' # rest') ?s2 of
           (Inl error, s') \<Rightarrow> lifecycle_after env sid session (Inl error) s'
         | (Inr None, s') \<Rightarrow>
             lifecycle_after env sid session (Inl (Error allKeysDepletedMessage)) s'
         | (Inr (Some r), s') \<Rightarrow> lifecycle_after env sid session (Inr r) s')"
        by (rule Cons.IH)
      have resume: "run_resume env
          \<lparr>p_sessionId = sid, p_session = session, p_body = ?b, p_rest = key' # rest'\<rparr>
          (fetch env (gatewayLog s) ?b) ?s1 =
         (Suspended \<lparr>p_sessionId = sid, p_session = session,
                     p_body = body\<lparr>rq_apiKey := key'\<rparr>, p_rest = rest'\<rparr>,
          ?s2\<lparr>gatewayLog := gatewayLog ?s2 @ [body\<lparr>rq_apiKey := key'\<rparr>]\<rparr>)"
        using Inl False by (simp add: run_resume_def Let_def)
      have loop: "tryKeys env sid body (key # key' # rest') s =
                  tryKeys env sid body (key' # rest') ?s2"
        using Inl False by (simp add: chat_answered del: tryKeys.simps(2))
           (simp add: chat_answered)
      have "complete env (Suc (length (key' # rest')) + m)
         (Suspended \<lparr>p_sessionId = sid, p_session = session, p_body = ?b,
                     p_rest = key' # rest'\<rparr>, ?s1) =
        complete env (Suc (length rest') + m)
         (Suspended \<lparr>p_sessionId = sid, p_session = session,
                     p_body = body\<lparr>rq_apiKey := key'\<rparr>, p_rest = rest'\<rparr>,
          ?s2\<lparr>gatewayLog := gatewayLog ?s2 @ [body\<lparr>rq_apiKey := key'\<rparr>]\<rparr>)"
        by (simp add: resume)
      then show ?thesis unfolding ih loop .
    qed
  qed
qed


lemma runChatLifecycle_session:
  assumes "firstThrown env (entryCalls sid) = None"
    and "sessions (enterThinking env sid s) sid = Some session"
  shows "runChatLifecycle env sid s =
           (case sessionRequest env sid session (enterThinking env sid s) of
              (result, s1) \<Rightarrow> lifecycle_after env sid session result s1)"
  using assms
  by (simp add: runChatLifecycle_def executeChat_def executeChat_try_def lifecycle_after_def
           split: prod.splits sum.splits option.splits)

text \<open>
  The pieces make up the run: with the backend answering each request at once, the pieces
  of a run, one for each credential at most, end as \<^verbatim>\<open>runChatLifecycle\<close> does.
\<close>

lemma run_start_complete:
  assumes "length (usableKeys (enterThinking env sid s)
             (case sessions (enterThinking env sid s) sid of
                None \<Rightarrow> [] | Some session \<Rightarrow> sess_model session)) \<le> n"
  shows "complete env n (run_start env sid s) = Some (runChatLifecycle env sid s)"
proof (cases "firstThrown env (entryCalls sid)")
  case (Some error)
  then show ?thesis by (simp add: run_start_def runChatLifecycle_def)
next
  case None
  note entry = this
  let ?s0 = "enterThinking env sid s"
  show ?thesis
  proof (cases "sessions ?s0 sid")
    case None
    with entry show ?thesis
      by (simp add: run_start_def runChatLifecycle_def executeChat_def)
  next
    case (Some session)
    note sess = this
    show ?thesis
    proof (cases "usableKeys ?s0 (sess_model session)")
      case Nil
      with entry sess show ?thesis
        by (simp add: run_start_def runChatLifecycle_session[OF entry sess]
              sessionRequest_def callChatApi_def)
    next
      case (Cons key rest)
      let ?body = "\<lparr>rq_apiKey = None, rq_model = sess_model session,
                     rq_history = filterHistoryForApi (history session),
                     rq_historyTokenLimit = historyTokenLimit (settings ?s0),
                     rq_systemPrompt = systemPromptOf ?s0 session,
                     rq_temperature = temperature (settings ?s0),
                     rq_topP = topP (settings ?s0)\<rparr>"
      from assms sess Cons obtain m where n: "n = Suc (length rest) + m"
        by (auto simp: le_iff_add)
      have start: "run_start env sid s =
          (Suspended \<lparr>p_sessionId = sid, p_session = session,
                      p_body = ?body\<lparr>rq_apiKey := key\<rparr>, p_rest = rest\<rparr>,
           ?s0\<lparr>gatewayLog := gatewayLog ?s0 @ [?body\<lparr>rq_apiKey := key\<rparr>]\<rparr>)"
        using entry sess Cons by (simp add: run_start_def Let_def)
      have run: "runChatLifecycle env sid s =
          (case tryKeys env sid ?body (key # rest) ?s0 of
             (Inl error, s') \<Rightarrow> lifecycle_after env sid session (Inl error) s'
           | (Inr None, s') \<Rightarrow>
               lifecycle_after env sid session (Inl (Error allKeysDepletedMessage)) s'
           | (Inr (Some r), s') \<Rightarrow> lifecycle_after env sid session (Inr r) s')"
        using Cons
        by (simp add: runChatLifecycle_session[OF entry sess] sessionRequest_def
              callChatApi_def del: tryKeys.simps split: prod.splits sum.splits option.splits)
      show ?thesis unfolding start run n by (rule complete_suspended)
    qed
  qed
qed

text \<open>
  Likewise for the three operations: what they do up to their entry into the lifecycle,
  followed by the pieces of the run, is the operation.
\<close>

lemma sendMessage_refused:
  "sendMessage_begin s = None \<Longrightarrow> sendMessage env s = (None, s)"
  by (auto simp: sendMessage_begin_def sendMessage_def Let_def split: option.splits if_splits)

lemma usableKeys_length: "length (usableKeys s model) \<le> length (configuredKeys s)"
  unfolding usableKeys_def allKeys_def by (rule le_trans[OF length_filter_le length_filter_le])

lemma configuredKeys_settings: "settings s' = settings s \<Longrightarrow> configuredKeys s' = configuredKeys s"
  by (simp add: configuredKeys_def)

lemma run_start_complete_settings:
  assumes "settings s' = settings s" and "length (configuredKeys s) \<le> n"
  shows "complete env n (run_start env sid s') = Some (runChatLifecycle env sid s')"
proof (rule run_start_complete)
  have "configuredKeys (enterThinking env sid s') = configuredKeys s"
    using assms(1) by (simp add: configuredKeys_def enterThinking_def)
  with usableKeys_length[of "enterThinking env sid s'"] assms(2)
  show "length (usableKeys (enterThinking env sid s')
             (case sessions (enterThinking env sid s') sid of
                None \<Rightarrow> [] | Some session \<Rightarrow> sess_model session)) \<le> n"
    by (metis le_trans)
qed

lemma sendMessage_complete:
  assumes "sendMessage_begin s = Some c" and "length (configuredKeys s) \<le> n"
  shows "complete env n (sendMessage_resume env c s) = Some (sendMessage env s)"
proof -
  from assms(1) obtain sid where
    a: "activeSessionId s = Some sid" and g: "sid \<noteq> []" "loadingStates s sid = None" and
    i: "\<not> (inputText s = [] \<and> attachedFiles s = [])" and
    c: "c = (sid, prepareMessageParts (inputText s) (attachedFiles s))"
    by (auto simp: sendMessage_begin_def Let_def split: option.splits if_splits)
  show ?thesis
  proof (cases "addMessage env sid User (prepareMessageParts (inputText s) (attachedFiles s)) None s")
    case (Inl thrown)
    with a g i c show ?thesis by (auto simp: sendMessage_resume_def sendMessage_def Let_def)
  next
    case (Inr r)
    obtain newMessage s1 where r: "r = (newMessage, s1)" by (cases r)
    let ?s2 = "s1\<lparr>inputText := [], attachedFiles := []\<rparr>"
    have "settings ?s2 = settings s"
      using Inr r by (auto simp: addMessage_def Let_def split: option.splits if_splits)
    from run_start_complete_settings[OF this assms(2)]
    have "complete env n (run_start env sid ?s2) = Some (runChatLifecycle env sid ?s2)" .
    with a g i c Inr r show ?thesis by (auto simp: sendMessage_resume_def sendMessage_def Let_def)
  qed
qed

lemma regenerate_complete:
  assumes "length (configuredKeys s) \<le> n"
  shows "(case regenerate_truncate sid mid s of
            None \<Rightarrow> Some (None, s)
          | Some s1 \<Rightarrow> complete env n (run_start env sid s1)) = Some (regenerate env sid mid s)"
proof (cases "regenerate_truncate sid mid s")
  case None
  then show ?thesis by (simp add: regenerate_def)
next
  case (Some s1)
  then have "settings s1 = settings s"
    by (auto simp: regenerate_truncate_def Let_def split: option.splits if_splits)
  from run_start_complete_settings[OF this assms]
  have "complete env n (run_start env sid s1) = Some (runChatLifecycle env sid s1)" .
  with Some show ?thesis by (simp add: regenerate_def)
qed

lemma resubmit_complete:
  assumes "length (configuredKeys s) \<le> n"
  shows "(if loadingStates s sid \<noteq> None then Some (None, s)
          else complete env n (run_start env sid s)) = Some (resubmit env sid s)"
proof -
  from run_start_complete_settings[OF refl assms]
  have "complete env n (run_start env sid s) = Some (runChatLifecycle env sid s)" .
  then show ?thesis by (simp add: resubmit_def)
qed

section \<open>Properties of the re-entrancy guard\<close>






lemma settled_simps [simp]: "fst (settled r) = Settled (fst r)" "snd (settled r) = snd r"
  by (simp_all add: settled_def)


lemma enterThinking_loadingStates:
  "loadingStates (enterThinking env sid s) sid \<noteq> None"
  "x \<noteq> sid \<Longrightarrow> loadingStates (enterThinking env sid s) x = loadingStates s x"
  by (simp_all add: enterThinking_def)


















lemma guarded_thinking:
  "guarded sys \<Longrightarrow> p \<in> set (inFlight sys) \<Longrightarrow>
   loadingStates (sys_state sys) (p_sessionId p) \<noteq> None"
  by (simp add: guarded_def)














end
